theory Spec2Isabelle
  imports Complex_Main "HOL-Library.AList"
begin

section \<open>Python values\<close>

text \<open>
  The service (class \<open>JordanOpenFinanceService\<close>, \<open>backend/services/jordan_open_finance.py\<close>)
  handles the partner's JSON documents as untyped Python values. A value decoded by
  \<open>response.json()\<close> is a \<open>pyval\<close>; a dict is an association list in insertion order,
  looked up with \<open>map_of\<close> and written with \<open>AList.update\<close> (an existing key keeps its
  place, a new key goes to the end, as in Python).

  A Python float is an IEEE 754 binary64 number: a finite one is \<open>PFloat\<close> of the rational
  it denotes, the infinities are \<open>PInf False\<close> (\<open>inf\<close>) and \<open>PInf True\<close> (\<open>-inf\<close>), and
  \<open>PNaN\<close> is \<open>nan\<close> (the decoder of \<open>response.json()\<close> accepts \<open>Infinity\<close> and \<open>NaN\<close>).
  The sign of a zero is not represented.
\<close>

datatype pyval =
    PNone
  | PBool bool
  | PInt int
  | PFloat rat
  | PInf bool
  | PNaN
  | PStr string
  | PList "pyval list"
  | PDict "(string \<times> pyval) list"

type_synonym pydict = "(string \<times> pyval) list"

text \<open>Every exception raised on the modelled paths is a subclass of \<open>Exception\<close>.\<close>

datatype pyexn =
    Exception string
  | ValueError string
  | TypeError
  | AttributeError
  | KeyError string
  | JSONDecodeError
  | HTTPError string
  | OverflowError

subsection \<open>Binary64 rounding\<close>

text \<open>
  \<open>dbl_round x\<close> is \<open>x\<close> rounded to the nearest multiple of its unit in the last place,
  ties to even. The unit is \<open>2 ^ e\<close> where \<open>e\<close> puts the significand in \<open>[2^52, 2^53)\<close>, and
  \<open>2 ^ -1074\<close> at least, so that the subnormal range is rounded as the hardware does. A
  rounded magnitude of \<open>2 ^ 1024\<close> or more (its integer part has more than 1024 binary
  digits) is beyond the largest finite float: \<open>py_float\<close> makes it an infinity, and the
  conversion of an int raises \<open>OverflowError\<close> there.
\<close>

function bitlen :: "int \<Rightarrow> int" where
  "bitlen n = (if n \<le> 0 then 0 else 1 + bitlen (n div 2))"
  by pat_completeness auto
termination
  by (relation "measure nat") auto

declare bitlen.simps [simp del]

definition rne_div :: "int \<Rightarrow> int \<Rightarrow> int" where
  "rne_div n d =
     (let q = n div d; r = n mod d
      in if 2 * r < d then q
         else if d < 2 * r then q + 1
         else if even q then q else q + 1)"

definition scaled :: "int \<Rightarrow> int \<Rightarrow> int \<Rightarrow> int \<times> int" where
  "scaled p q e = (if 0 \<le> e then (p, q * 2 ^ nat e) else (p * 2 ^ nat (- e), q))"

definition binade :: "int \<Rightarrow> int \<Rightarrow> int" where
  "binade p q =
     (let k = bitlen p - bitlen q - 52;
          (n, d) = scaled p q k
      in if d * 2 ^ 52 \<le> n then k else k - 1)"

definition dbl_round :: "rat \<Rightarrow> rat" where
  "dbl_round x =
     (if x = 0 then 0
      else let (p, q) = quotient_of \<bar>x\<bar>;
               e = max (binade p q) (- 1074);
               (n, d) = scaled p q e;
               m = rne_div n d;
               y = (if 0 \<le> e then Fract (m * 2 ^ nat e) 1 else Fract m (2 ^ nat (- e)))
           in if x < 0 then - y else y)"

definition overflows :: "rat \<Rightarrow> bool" where
  "overflows y = (1024 < bitlen \<lfloor>\<bar>y\<bar>\<rfloor>)"

text \<open>The float result of an arithmetic operation whose exact value is \<open>x\<close>.\<close>

definition py_float :: "rat \<Rightarrow> pyval" where
  "py_float x =
     (let y = dbl_round x
      in if overflows y then PInf (y < 0) else PFloat y)"

text \<open>\<open>float(i)\<close> for an int, as the mixed arithmetic of a float and an int converts it.\<close>

definition float_of_int :: "int \<Rightarrow> pyexn + rat" where
  "float_of_int i =
     (let y = dbl_round (of_int i)
      in if overflows y then Inl OverflowError else Inr y)"

subsection \<open>Operations on values\<close>

text \<open>\<open>bool(v)\<close>, as used by \<open>if v:\<close>.\<close>

fun py_truthy :: "pyval \<Rightarrow> bool" where
  "py_truthy PNone = False"
| "py_truthy (PBool b) = b"
| "py_truthy (PInt i) = (i \<noteq> 0)"
| "py_truthy (PFloat f) = (f \<noteq> 0)"
| "py_truthy (PInf s) = True"
| "py_truthy PNaN = True"
| "py_truthy (PStr s) = (s \<noteq> [])"
| "py_truthy (PList xs) = (xs \<noteq> [])"
| "py_truthy (PDict kvs) = (kvs \<noteq> [])"

text \<open>\<open>d.get(k, default)\<close> for a dict \<open>d\<close>.\<close>

definition dict_get :: "pydict \<Rightarrow> string \<Rightarrow> pyval \<Rightarrow> pyval" where
  "dict_get d k dflt = (case map_of d k of None \<Rightarrow> dflt | Some v \<Rightarrow> v)"

text \<open>\<open>v.get(k, default)\<close> for any value: only a dict has the method.\<close>

fun py_get :: "pyval \<Rightarrow> string \<Rightarrow> pyval \<Rightarrow> pyexn + pyval" where
  "py_get (PDict d) k dflt = Inr (dict_get d k dflt)"
| "py_get _ k dflt = Inl AttributeError"

text \<open>\<open>for x in v\<close>: the elements of a list, the keys of a dict, the characters of a string.\<close>

fun py_iter :: "pyval \<Rightarrow> pyexn + pyval list" where
  "py_iter (PList xs) = Inr xs"
| "py_iter (PDict d) = Inr (map (\<lambda>kv. PStr (fst kv)) d)"
| "py_iter (PStr s) = Inr (map (\<lambda>c. PStr [c]) s)"
| "py_iter _ = Inl TypeError"

fun is_prefix :: "string \<Rightarrow> string \<Rightarrow> bool" where
  "is_prefix [] ys = True"
| "is_prefix (x # xs) [] = False"
| "is_prefix (x # xs) (y # ys) = (x = y \<and> is_prefix xs ys)"

fun is_infix :: "string \<Rightarrow> string \<Rightarrow> bool" where
  "is_infix xs [] = (xs = [])"
| "is_infix xs (y # ys) = (is_prefix xs (y # ys) \<or> is_infix xs ys)"

text \<open>\<open>k in v\<close> for a string \<open>k\<close>.\<close>

fun py_contains :: "pyval \<Rightarrow> string \<Rightarrow> pyexn + bool" where
  "py_contains (PDict d) k = Inr (map_of d k \<noteq> None)"
| "py_contains (PList xs) k = Inr (PStr k \<in> set xs)"
| "py_contains (PStr s) k = Inr (is_infix k s)"
| "py_contains _ k = Inl TypeError"

text \<open>\<open>v[k]\<close> for a string \<open>k\<close>.\<close>

fun py_subscript :: "pyval \<Rightarrow> string \<Rightarrow> pyexn + pyval" where
  "py_subscript (PDict d) k = (case map_of d k of None \<Rightarrow> Inl (KeyError k) | Some v \<Rightarrow> Inr v)"
| "py_subscript _ k = Inl TypeError"

text \<open>
  \<open>a * v\<close> for a finite float \<open>a\<close>: defined for numbers only (\<open>bool\<close> is a subclass of
  \<open>int\<close>). An int is converted to a float first, which raises when it is too large; a
  product too large for a float is an infinity, and zero times an infinity is \<open>nan\<close>.
\<close>

fun py_float_mul :: "rat \<Rightarrow> pyval \<Rightarrow> pyexn + pyval" where
  "py_float_mul a (PFloat b) = Inr (py_float (a * b))"
| "py_float_mul a (PInf s) = Inr (if a = 0 then PNaN else PInf (s \<noteq> (a < 0)))"
| "py_float_mul a PNaN = Inr PNaN"
| "py_float_mul a (PInt i) =
     (case float_of_int i of Inl e \<Rightarrow> Inl e | Inr b \<Rightarrow> Inr (py_float (a * b)))"
| "py_float_mul a (PBool b) = Inr (py_float (a * (if b then 1 else 0)))"
| "py_float_mul a _ = Inl TypeError"

text \<open>\<open>{**base, **items}\<close>.\<close>

definition dict_merge :: "pydict \<Rightarrow> pydict \<Rightarrow> pydict" where
  "dict_merge base items = fold (\<lambda>kv d. AList.update (fst kv) (snd kv) d) items base"

text \<open>\<open>str(i)\<close> for an int.\<close>

definition digit_char :: "nat \<Rightarrow> char" where
  "digit_char d = ''0123456789'' ! d"

function digits :: "int \<Rightarrow> string" where
  "digits n =
     (if n < 10 then [digit_char (nat n)]
      else digits (n div 10) @ [digit_char (nat (n mod 10))])"
  by pat_completeness auto
termination
  by (relation "measure nat") auto

declare digits.simps [simp del]

definition str_int :: "int \<Rightarrow> string" where
  "str_int i = (if i < 0 then CHR ''-'' # digits (- i) else digits i)"

section \<open>The environment and the outbound calls\<close>

text \<open>
  \<open>UrlFmt p v s\<close> is the f-string \<open>f"p{v}s"\<close>. \<open>params\<close> is the query string.
\<close>

datatype url = Url string | UrlFmt string pyval string

record request =
  url :: url
  headers :: "(string \<times> string) list"
  params :: pydict

text \<open>
  \<open>text_body\<close> is \<open>response.text\<close>; \<open>json = None\<close>: the body is not JSON and
  \<open>response.json()\<close> raises.
\<close>

record response =
  status_code :: int
  text_body :: string
  json :: "pyval option"

text \<open>
  What the code reads from outside: the process environment, the UUID generator (the
  \<open>k\<close>-th value it yields), the clock (the \<open>k\<close>-th reading, in microseconds) with its two
  formats, and the partner, which answers the \<open>n\<close>-th request sent with a response or with
  a transport exception of \<open>httpx\<close>.
\<close>

record env =
  getenv :: "string \<Rightarrow> string option"
  uuid_source :: "nat \<Rightarrow> string"
  clock :: "nat \<Rightarrow> int"
  strftime :: "int \<Rightarrow> string"
  isoformat :: "int \<Rightarrow> string"
  partner :: "nat \<Rightarrow> request \<Rightarrow> pyexn + response"

record world =
  uuids_drawn :: nat
  clock_reads :: nat
  sent :: "request list"

definition os_getenv :: "env \<Rightarrow> string \<Rightarrow> string \<Rightarrow> string" where
  "os_getenv E name dflt = (case getenv E name of None \<Rightarrow> dflt | Some v \<Rightarrow> v)"

text \<open>\<open>str(uuid.uuid4())\<close>\<close>

definition str_uuid4 :: "env \<Rightarrow> world \<Rightarrow> string \<times> world" where
  "str_uuid4 E w = (uuid_source E (uuids_drawn w), w\<lparr>uuids_drawn := Suc (uuids_drawn w)\<rparr>)"

text \<open>\<open>datetime.utcnow()\<close>\<close>

definition utcnow :: "env \<Rightarrow> world \<Rightarrow> int \<times> world" where
  "utcnow E w = (clock E (clock_reads w), w\<lparr>clock_reads := Suc (clock_reads w)\<rparr>)"

text \<open>\<open>timedelta(minutes=5)\<close> in microseconds.\<close>

definition five_minutes :: int where
  "five_minutes = 300000000"

text \<open>\<open>await client.get(url, headers=..., params=...)\<close>\<close>

definition http_get :: "env \<Rightarrow> request \<Rightarrow> world \<Rightarrow> (pyexn + response) \<times> world" where
  "http_get E req w = (partner E (length (sent w)) req, w\<lparr>sent := sent w @ [req]\<rparr>)"

section \<open>Accounts and balances\<close>

definition api_base :: string where
  "api_base = ''https://jpcjofsdev.apigw-az-eu.webmethods.io''"

definition user_agent :: string where
  "user_agent = ''StableCoin-Fintech-App/1.0''"

text \<open>
  \<open>get_headers\<close>, the header set of the calls that have none of their own
  (\<open>get_fx_rates\<close>, the consent and payment calls).
\<close>

definition get_headers :: "env \<Rightarrow> string \<Rightarrow> world \<Rightarrow> (string \<times> string) list \<times> world" where
  "get_headers E customer_ip w =
     (let (interaction_id, w1) = str_uuid4 E w;
          (idempotency_key, w2) = str_uuid4 E w1;
          (now, w3) = utcnow E w2
      in ([(''Authorization'', os_getenv E ''JOPACC_AUTHORIZATION'' ''Bearer demo_token''),
           (''x-financial-id'', os_getenv E ''JOPACC_FINANCIAL_ID'' ''001''),
           (''x-customer-ip-address'', customer_ip),
           (''x-customer-user-agent'', user_agent),
           (''x-interactions-id'', interaction_id),
           (''x-idempotency-key'', idempotency_key),
           (''x-jws-signature'', os_getenv E ''JOPACC_JWS_SIGNATURE'' []),
           (''x-auth-date'', strftime E now),
           (''x-customer-id'', os_getenv E ''JOPACC_CUSTOMER_ID'' ''customer_123''),
           (''Content-Type'', ''application/json''),
           (''Accept'', ''application/json'')], w3))"

text \<open>The \<open>headers\<close> dict of \<open>get_accounts_new\<close>.\<close>

definition get_accounts_new_headers :: "env \<Rightarrow> world \<Rightarrow> (string \<times> string) list \<times> world" where
  "get_accounts_new_headers E w =
     (let (now, w1) = utcnow E w;
          (idempotency_key, w2) = str_uuid4 E w1;
          (interaction_id, w3) = str_uuid4 E w2
      in ([(''x-jws-signature'', os_getenv E ''JOPACC_JWS_SIGNATURE'' []),
           (''x-auth-date'', strftime E now),
           (''x-idempotency-key'', idempotency_key),
           (''Authorization'', os_getenv E ''JOPACC_AUTHORIZATION'' ''Bearer demo_token''),
           (''x-customer-user-agent'', user_agent),
           (''x-financial-id'', os_getenv E ''JOPACC_FINANCIAL_ID'' ''001''),
           (''x-customer-ip-address'', ''127.0.0.1''),
           (''x-interactions-id'', interaction_id),
           (''x-customer-id'', os_getenv E ''JOPACC_CUSTOMER_ID'' ''customer_123'')], w3))"

text \<open>The \<open>querystring\<close> dict; \<open>if account_type:\<close> is false for \<open>None\<close> and for the empty string.\<close>

definition str_truthy :: "string option \<Rightarrow> bool" where
  "str_truthy s = (case s of None \<Rightarrow> False | Some t \<Rightarrow> t \<noteq> [])"

definition accounts_querystring ::
  "int \<Rightarrow> string option \<Rightarrow> int \<Rightarrow> string option \<Rightarrow> string \<Rightarrow> pydict" where
  "accounts_querystring skip account_type limit account_status sort_order =
     [(''skip'', PInt skip), (''limit'', PInt limit), (''sort'', PStr sort_order)]
     @ (case account_type of
          Some t \<Rightarrow> if str_truthy account_type then [(''accountType'', PStr t)] else []
        | None \<Rightarrow> [])
     @ (case account_status of
          Some t \<Rightarrow> if str_truthy account_status then [(''accountStatus'', PStr t)] else []
        | None \<Rightarrow> [])"

definition accounts_url :: string where
  "accounts_url = api_base @ ''/gateway/Accounts/v0.4.3/accounts''"

text \<open>The request \<open>get_accounts_new\<close> sends.\<close>

definition get_accounts_new_request ::
  "env \<Rightarrow> int \<Rightarrow> string option \<Rightarrow> int \<Rightarrow> string option \<Rightarrow> string \<Rightarrow> world \<Rightarrow> request \<times> world" where
  "get_accounts_new_request E skip account_type limit account_status sort_order w =
     (let (hdrs, w1) = get_accounts_new_headers E w
      in (\<lparr>url = Url accounts_url, headers = hdrs,
           params = accounts_querystring skip account_type limit account_status sort_order\<rparr>, w1))"

definition get_accounts_new ::
  "env \<Rightarrow> int \<Rightarrow> string option \<Rightarrow> int \<Rightarrow> string option \<Rightarrow> string \<Rightarrow> world
   \<Rightarrow> (pyexn + pyval) \<times> world" where
  "get_accounts_new E skip account_type limit account_status sort_order w =
     (let (req, w1) = get_accounts_new_request E skip account_type limit account_status sort_order w
      in case http_get E req w1 of
           (Inl e, w2) \<Rightarrow> (Inl e, w2)
         | (Inr response, w2) \<Rightarrow>
             if status_code response = 200 then
               (case json response of
                  None \<Rightarrow> (Inl JSONDecodeError, w2)
                | Some api_data \<Rightarrow> (Inr api_data, w2))
             else
               (Inl (Exception (''JoPACC API Error: '' @ str_int (status_code response)
                                @ '' - '' @ text_body response)), w2))"

text \<open>The \<open>headers\<close> dict of \<open>get_account_balances\<close>.\<close>

definition get_account_balances_headers ::
  "env \<Rightarrow> string \<Rightarrow> world \<Rightarrow> (string \<times> string) list \<times> world" where
  "get_account_balances_headers E customer_ip w =
     (let (now, w1) = utcnow E w;
          (idempotency_key, w2) = str_uuid4 E w1;
          (interaction_id, w3) = str_uuid4 E w2
      in ([(''x-customer-ip-address'', customer_ip),
           (''x-customer-user-agent'', user_agent),
           (''Authorization'', os_getenv E ''JOPACC_AUTHORIZATION'' ''Bearer demo_token''),
           (''x-financial-id'', os_getenv E ''JOPACC_FINANCIAL_ID'' ''001''),
           (''x-auth-date'', strftime E now),
           (''x-idempotency-key'', idempotency_key),
           (''x-jws-signature'', os_getenv E ''JOPACC_JWS_SIGNATURE'' []),
           (''x-interactions-id'', interaction_id)], w3))"

definition balances_url :: "pyval \<Rightarrow> url" where
  "balances_url account_id =
     UrlFmt (api_base @ ''/gateway/Balances/v0.4.3/accounts/'') account_id ''/balances''"

definition get_account_balances_request ::
  "env \<Rightarrow> pyval \<Rightarrow> string \<Rightarrow> world \<Rightarrow> request \<times> world" where
  "get_account_balances_request E account_id customer_ip w =
     (let (hdrs, w1) = get_account_balances_headers E customer_ip w
      in (\<lparr>url = balances_url account_id, headers = hdrs, params = []\<rparr>, w1))"

definition get_account_balances ::
  "env \<Rightarrow> pyval \<Rightarrow> string \<Rightarrow> world \<Rightarrow> (pyexn + pyval) \<times> world" where
  "get_account_balances E account_id customer_ip w =
     (let (req, w1) = get_account_balances_request E account_id customer_ip w
      in case http_get E req w1 of
           (Inl e, w2) \<Rightarrow> (Inl e, w2)
         | (Inr response, w2) \<Rightarrow>
             if status_code response = 200 then
               (case json response of
                  None \<Rightarrow> (Inl JSONDecodeError, w2)
                | Some api_data \<Rightarrow> (Inr api_data, w2))
             else
               (Inl (Exception (''JoPACC Balance API Error: '' @ str_int (status_code response)
                                @ '' - '' @ text_body response)), w2))"

text \<open>
  The dict display
  \<open>{**account, "detailed_balances": ..., "balance_last_updated": ...}\<close>
  inside the \<open>try\<close> of \<open>get_accounts_with_balances\<close>.
\<close>

definition account_with_balance :: "pyval \<Rightarrow> pyval \<Rightarrow> pyexn + pyval" where
  "account_with_balance account balance_response =
     (case account of
        PDict d \<Rightarrow>
          (case py_get balance_response ''balances'' (PList []) of
             Inl e \<Rightarrow> Inl e
           | Inr detailed \<Rightarrow>
               (case py_get balance_response ''lastUpdated'' (dict_get d ''lastUpdated'' PNone) of
                  Inl e \<Rightarrow> Inl e
                | Inr last_updated \<Rightarrow>
                    Inr (PDict (AList.update ''balance_last_updated'' last_updated
                                 (AList.update ''detailed_balances'' detailed d)))))
      | _ \<Rightarrow> Inl TypeError)"

text \<open>
  The \<open>for account in ...\<close> loop of \<open>get_accounts_with_balances\<close>; \<open>enriched_accounts\<close> is
  the list built so far. \<open>except Exception\<close> catches whatever the balance call or the
  dict display raises; \<open>account.get("accountId")\<close> is outside the \<open>try\<close>.
\<close>

fun enrich_loop ::
  "env \<Rightarrow> pyval list \<Rightarrow> pyval list \<Rightarrow> world \<Rightarrow> (pyexn + pyval list) \<times> world" where
  "enrich_loop E [] enriched_accounts w = (Inr enriched_accounts, w)"
| "enrich_loop E (account # rest) enriched_accounts w =
     (case py_get account ''accountId'' PNone of
        Inl e \<Rightarrow> (Inl e, w)
      | Inr account_id \<Rightarrow>
          if py_truthy account_id then
            (case get_account_balances E account_id ''127.0.0.1'' w of
               (Inr balance_response, w1) \<Rightarrow>
                 (case account_with_balance account balance_response of
                    Inr enriched \<Rightarrow> enrich_loop E rest (enriched_accounts @ [enriched]) w1
                  | Inl e \<Rightarrow> enrich_loop E rest (enriched_accounts @ [account]) w1)
             | (Inl e, w1) \<Rightarrow> enrich_loop E rest (enriched_accounts @ [account]) w1)
          else enrich_loop E rest (enriched_accounts @ [account]) w)"

definition get_accounts_with_balances ::
  "env \<Rightarrow> int \<Rightarrow> int \<Rightarrow> world \<Rightarrow> (pyexn + pydict) \<times> world" where
  "get_accounts_with_balances E skip limit w =
     (case get_accounts_new E skip None limit None ''desc'' w of
        (Inl e, w1) \<Rightarrow> (Inl e, w1)
      | (Inr accounts_response, w1) \<Rightarrow>
          (case py_get accounts_response ''accounts'' (PList []) of
             Inl e \<Rightarrow> (Inl e, w1)
           | Inr listed \<Rightarrow>
               (case py_iter listed of
                  Inl e \<Rightarrow> (Inl e, w1)
                | Inr accounts \<Rightarrow>
                    (case enrich_loop E accounts [] w1 of
                       (Inl e, w2) \<Rightarrow> (Inl e, w2)
                     | (Inr enriched_accounts, w2) \<Rightarrow>
                         (case py_get accounts_response ''hasMore'' (PBool False) of
                            Inl e \<Rightarrow> (Inl e, w2)
                          | Inr has_more \<Rightarrow>
                              (Inr [(''accounts'', PList enriched_accounts),
                                    (''totalCount'', PInt (int (length enriched_accounts))),
                                    (''hasMore'', has_more)], w2))))))"

section \<open>Foreign exchange\<close>

definition fx_rates_url :: string where
  "fx_rates_url = api_base @ ''/gateway/Foreign%20Exchange/v1.3/institution/FXs''"

definition get_fx_rates_request :: "env \<Rightarrow> world \<Rightarrow> request \<times> world" where
  "get_fx_rates_request E w =
     (let (hdrs, w1) = get_headers E ''127.0.0.1'' w
      in (\<lparr>url = Url fx_rates_url, headers = hdrs, params = []\<rparr>, w1))"

definition get_fx_rates :: "env \<Rightarrow> world \<Rightarrow> (pyexn + pyval) \<times> world" where
  "get_fx_rates E w =
     (let (req, w1) = get_fx_rates_request E w
      in case http_get E req w1 of
           (Inl e, w2) \<Rightarrow> (Inl e, w2)
         | (Inr response, w2) \<Rightarrow>
             if status_code response = 200 then
               (case json response of
                  None \<Rightarrow> (Inl JSONDecodeError, w2)
                | Some api_data \<Rightarrow> (Inr api_data, w2))
             else
               (Inl (Exception (''JoPACC FX Rates API Error: '' @ str_int (status_code response)
                                @ '' - '' @ text_body response)), w2))"

text \<open>The \<open>headers\<close> dict of \<open>get_fx_quote\<close>.\<close>

definition get_fx_quote_headers :: "env \<Rightarrow> world \<Rightarrow> (string \<times> string) list \<times> world" where
  "get_fx_quote_headers E w =
     (let (interaction_id, w1) = str_uuid4 E w;
          (idempotency_key, w2) = str_uuid4 E w1
      in ([(''x-interactions-id'', interaction_id),
           (''Authorization'', os_getenv E ''JOPACC_AUTHORIZATION'' ''Bearer demo_token''),
           (''x-financial-id'', os_getenv E ''JOPACC_FINANCIAL_ID'' ''001''),
           (''x-jws-signature'', os_getenv E ''JOPACC_JWS_SIGNATURE'' []),
           (''x-idempotency-key'', idempotency_key)], w2))"

definition fx_quote_url :: string where
  "fx_quote_url =
     api_base @ ''/gateway/Foreign%20Exchange%20%28FX%29/v0.4.3/institution/FXs''"

definition get_fx_quote_request :: "env \<Rightarrow> world \<Rightarrow> request \<times> world" where
  "get_fx_quote_request E w =
     (let (hdrs, w1) = get_fx_quote_headers E w
      in (\<lparr>url = Url fx_quote_url, headers = hdrs, params = []\<rparr>, w1))"

text \<open>The parameter \<open>amount: float = None\<close> as a value: \<open>None\<close> or a finite float.\<close>

definition amount_value :: "rat option \<Rightarrow> pyval" where
  "amount_value amount = (case amount of None \<Rightarrow> PNone | Some a \<Rightarrow> PFloat a)"

text \<open>\<open>amount * rate if amount else None\<close>\<close>

definition converted_amount :: "rat option \<Rightarrow> pyval \<Rightarrow> pyexn + pyval" where
  "converted_amount amount rate =
     (case amount of
        None \<Rightarrow> Inr PNone
      | Some a \<Rightarrow> if a \<noteq> 0 then py_float_mul a rate else Inr PNone)"

text \<open>The dict that both \<open>return\<close> statements of \<open>get_fx_quote\<close> build.\<close>

definition quote_dict ::
  "env \<Rightarrow> pyval \<Rightarrow> pyval \<Rightarrow> pyval \<Rightarrow> rat option \<Rightarrow> pyval \<Rightarrow> world \<Rightarrow> pydict \<times> world" where
  "quote_dict E base_currency target rate amount converted w =
     (let (quote_id, w1) = str_uuid4 E w;
          (t1, w2) = utcnow E w1;
          (t2, w3) = utcnow E w2
      in ([(''quoteId'', PStr quote_id),
           (''baseCurrency'', base_currency),
           (''targetCurrency'', target),
           (''rate'', rate),
           (''amount'', amount_value amount),
           (''convertedAmount'', converted),
           (''validUntil'', PStr (isoformat E (t1 + five_minutes) @ ''Z'')),
           (''timestamp'', PStr (isoformat E t2 @ ''Z''))], w3))"

text \<open>
  The loop \<open>for fx_rate in fx_data["data"]\<close>: \<open>Some r\<close> when the loop returns or raises
  \<open>r\<close>, \<open>None\<close> when it runs to its end.
\<close>

fun match_loop ::
  "env \<Rightarrow> pyval list \<Rightarrow> string \<Rightarrow> rat option \<Rightarrow> world \<Rightarrow> (pyexn + pydict) option \<times> world" where
  "match_loop E [] target_currency amount w = (None, w)"
| "match_loop E (fx_rate # rest) target_currency amount w =
     (case fx_rate of
        PDict d \<Rightarrow>
          if dict_get d ''targetCurrency'' PNone = PStr target_currency then
            (let rate = dict_get d ''conversionValue'' (PFloat 1)
             in case converted_amount amount rate of
                  Inl e \<Rightarrow> (Some (Inl e), w)
                | Inr converted \<Rightarrow>
                    (let (q, w1) = quote_dict E (dict_get d ''sourceCurrency'' (PStr ''JOD''))
                                     (PStr target_currency) rate amount converted w
                     in (Some (Inr q), w1)))
          else match_loop E rest target_currency amount w
      | _ \<Rightarrow> (Some (Inl AttributeError), w))"

text \<open>The fallback after the loop: \<open>first_rate = fx_data["data"][0]\<close>.\<close>

definition first_rate_quote ::
  "env \<Rightarrow> pyval \<Rightarrow> string \<Rightarrow> rat option \<Rightarrow> world \<Rightarrow> (pyexn + pydict) \<times> world" where
  "first_rate_quote E data target_currency amount w =
     (case data of
        PList (first_rate # rest) \<Rightarrow>
          (case first_rate of
             PDict d \<Rightarrow>
               (let rate = dict_get d ''conversionValue'' (PFloat 1)
                in case converted_amount amount rate of
                     Inl e \<Rightarrow> (Inl e, w)
                   | Inr converted \<Rightarrow>
                       (let (q, w1) = quote_dict E (dict_get d ''sourceCurrency'' (PStr ''JOD''))
                                        (dict_get d ''targetCurrency'' (PStr target_currency))
                                        rate amount converted w
                        in (Inr q, w1)))
           | _ \<Rightarrow> (Inl AttributeError, w))
      | _ \<Rightarrow> (Inl TypeError, w))"

text \<open>What \<open>get_fx_quote\<close> does with the decoded body of a 200 response.\<close>

definition quote_from_fx_data ::
  "env \<Rightarrow> pyval \<Rightarrow> string \<Rightarrow> rat option \<Rightarrow> world \<Rightarrow> (pyexn + pydict) \<times> world" where
  "quote_from_fx_data E fx_data target_currency amount w =
     (case py_contains fx_data ''data'' of
        Inl e \<Rightarrow> (Inl e, w)
      | Inr False \<Rightarrow> (Inl (Exception ''JoPACC FX API returned no data''), w)
      | Inr True \<Rightarrow>
          (case py_subscript fx_data ''data'' of
             Inl e \<Rightarrow> (Inl e, w)
           | Inr data \<Rightarrow>
               if py_truthy data then
                 (case py_iter data of
                    Inl e \<Rightarrow> (Inl e, w)
                  | Inr rates \<Rightarrow>
                      (case match_loop E rates target_currency amount w of
                         (Some r, w1) \<Rightarrow> (r, w1)
                       | (None, w1) \<Rightarrow>
                           if py_truthy data
                           then first_rate_quote E data target_currency amount w1
                           else (Inl (Exception ''JoPACC FX API returned no data''), w1)))
               else (Inl (Exception ''JoPACC FX API returned no data''), w)))"

definition get_fx_quote ::
  "env \<Rightarrow> string \<Rightarrow> rat option \<Rightarrow> world \<Rightarrow> (pyexn + pydict) \<times> world" where
  "get_fx_quote E target_currency amount w =
     (let (req, w1) = get_fx_quote_request E w
      in case http_get E req w1 of
           (Inl e, w2) \<Rightarrow> (Inl e, w2)
         | (Inr response, w2) \<Rightarrow>
             if status_code response = 200 then
               (case json response of
                  None \<Rightarrow> (Inl JSONDecodeError, w2)
                | Some fx_data \<Rightarrow> quote_from_fx_data E fx_data target_currency amount w2)
             else
               (Inl (Exception (''JoPACC FX API Error: '' @ str_int (status_code response)
                                @ '' - '' @ text_body response)), w2))"

subsection \<open>Account verification\<close>

text \<open>
  The loop \<open>for account in accounts_response.get("accounts", [])\<close> with its \<open>break\<close>:
  the pair \<open>(account_exists, account_currency)\<close> it leaves.
\<close>

fun find_account :: "pyval list \<Rightarrow> string \<Rightarrow> pyexn + bool \<times> pyval" where
  "find_account [] account_id = Inr (False, PStr ''JOD'')"
| "find_account (account # rest) account_id =
     (case account of
        PDict d \<Rightarrow>
          if dict_get d ''accountId'' PNone = PStr account_id
          then Inr (True, dict_get d ''currency'' (PStr ''JOD''))
          else find_account rest account_id
      | _ \<Rightarrow> Inl AttributeError)"

text \<open>
  The first lines of the \<open>try\<close> block, the same text in \<open>get_fx_rates_for_account\<close> and
  \<open>get_fx_quote_for_account\<close>: the account's currency, or what is raised.
\<close>

definition verify_account :: "env \<Rightarrow> string \<Rightarrow> world \<Rightarrow> (pyexn + pyval) \<times> world" where
  "verify_account E account_id w =
     (case get_accounts_new E 0 None 50 None ''desc'' w of
        (Inl e, w1) \<Rightarrow> (Inl e, w1)
      | (Inr accounts_response, w1) \<Rightarrow>
          (case py_get accounts_response ''accounts'' (PList []) of
             Inl e \<Rightarrow> (Inl e, w1)
           | Inr listed \<Rightarrow>
               (case py_iter listed of
                  Inl e \<Rightarrow> (Inl e, w1)
                | Inr accounts \<Rightarrow>
                    (case find_account accounts account_id of
                       Inl e \<Rightarrow> (Inl e, w1)
                     | Inr (account_exists, account_currency) \<Rightarrow>
                         if \<not> account_exists
                         then (Inl (ValueError (''Account '' @ account_id @ '' not found'')), w1)
                         else (Inr account_currency, w1)))))"

subsection \<open>\<open>get_fx_rates_for_account\<close>\<close>

text \<open>The dict both branches return, without the \<open>warning\<close> entry.\<close>

definition rates_dict ::
  "env \<Rightarrow> string \<Rightarrow> pyval \<Rightarrow> pyval \<Rightarrow> world \<Rightarrow> (pyexn + pydict) \<times> world" where
  "rates_dict E account_id account_currency fx_response w =
     (case py_get fx_response ''rates'' (PList []) of
        Inl e \<Rightarrow> (Inl e, w)
      | Inr rates \<Rightarrow>
          (let (now, w1) = utcnow E w
           in case py_get fx_response ''lastUpdated'' (PStr (isoformat E now @ ''Z'')) of
                Inl e \<Rightarrow> (Inl e, w1)
              | Inr last_updated \<Rightarrow>
                  (Inr [(''account_id'', PStr account_id),
                        (''account_currency'', account_currency),
                        (''fx_data'', fx_response),
                        (''rates_for_account'', rates),
                        (''last_updated'', last_updated)], w1)))"

text \<open>The \<open>try\<close> block.\<close>

definition rates_verified :: "env \<Rightarrow> string \<Rightarrow> world \<Rightarrow> (pyexn + pydict) \<times> world" where
  "rates_verified E account_id w =
     (case verify_account E account_id w of
        (Inl e, w1) \<Rightarrow> (Inl e, w1)
      | (Inr account_currency, w1) \<Rightarrow>
          (case get_fx_rates E w1 of
             (Inl e, w2) \<Rightarrow> (Inl e, w2)
           | (Inr fx_response, w2) \<Rightarrow> rates_dict E account_id account_currency fx_response w2))"

definition rates_warning :: string where
  "rates_warning = ''Account verification failed, using default FX rates''"

text \<open>The \<open>except Exception\<close> block.\<close>

definition rates_unverified :: "env \<Rightarrow> string \<Rightarrow> world \<Rightarrow> (pyexn + pydict) \<times> world" where
  "rates_unverified E account_id w =
     (case get_fx_rates E w of
        (Inl e, w1) \<Rightarrow> (Inl e, w1)
      | (Inr fx_response, w1) \<Rightarrow>
          (case rates_dict E account_id (PStr ''JOD'') fx_response w1 of
             (Inl e, w2) \<Rightarrow> (Inl e, w2)
           | (Inr result, w2) \<Rightarrow>
               (Inr (result @ [(''warning'', PStr rates_warning)]), w2)))"

definition get_fx_rates_for_account ::
  "env \<Rightarrow> string \<Rightarrow> world \<Rightarrow> (pyexn + pydict) \<times> world" where
  "get_fx_rates_for_account E account_id w =
     (case rates_verified E account_id w of
        (Inr result, w1) \<Rightarrow> (Inr result, w1)
      | (Inl e, w1) \<Rightarrow> rates_unverified E account_id w1)"

subsection \<open>\<open>get_fx_quote_for_account\<close>\<close>

text \<open>The \<open>try\<close> block.\<close>

definition quote_verified ::
  "env \<Rightarrow> string \<Rightarrow> string \<Rightarrow> rat option \<Rightarrow> world \<Rightarrow> (pyexn + pydict) \<times> world" where
  "quote_verified E account_id target_currency amount w =
     (case verify_account E account_id w of
        (Inl e, w1) \<Rightarrow> (Inl e, w1)
      | (Inr account_currency, w1) \<Rightarrow>
          (case get_fx_quote E target_currency amount w1 of
             (Inl e, w2) \<Rightarrow> (Inl e, w2)
           | (Inr quote_response, w2) \<Rightarrow>
               (Inr [(''account_id'', PStr account_id),
                     (''account_currency'', account_currency),
                     (''quote_data'', PDict quote_response),
                     (''base_currency'', dict_get quote_response ''baseCurrency'' account_currency),
                     (''target_currency'', PStr target_currency),
                     (''rate'', dict_get quote_response ''rate'' (PFloat 1)),
                     (''amount'', amount_value amount),
                     (''converted_amount'', dict_get quote_response ''convertedAmount'' PNone),
                     (''quote_id'', dict_get quote_response ''quoteId'' PNone),
                     (''valid_until'', dict_get quote_response ''validUntil'' PNone),
                     (''timestamp'', dict_get quote_response ''timestamp'' PNone)], w2)))"

definition quote_warning :: string where
  "quote_warning = ''Account verification failed, using default FX quote''"

text \<open>The \<open>except Exception\<close> block.\<close>

definition quote_unverified ::
  "env \<Rightarrow> string \<Rightarrow> string \<Rightarrow> rat option \<Rightarrow> world \<Rightarrow> (pyexn + pydict) \<times> world" where
  "quote_unverified E account_id target_currency amount w =
     (case get_fx_quote E target_currency amount w of
        (Inl e, w1) \<Rightarrow> (Inl e, w1)
      | (Inr quote_response, w1) \<Rightarrow>
          (Inr (AList.update ''warning'' (PStr quote_warning)
                 (dict_merge [(''account_id'', PStr account_id),
                              (''account_currency'', PStr ''JOD''),
                              (''quote_data'', PDict quote_response)]
                             quote_response)), w1))"

definition get_fx_quote_for_account ::
  "env \<Rightarrow> string \<Rightarrow> string \<Rightarrow> rat option \<Rightarrow> world \<Rightarrow> (pyexn + pydict) \<times> world" where
  "get_fx_quote_for_account E account_id target_currency amount w =
     (case quote_verified E account_id target_currency amount w of
        (Inr result, w1) \<Rightarrow> (Inr result, w1)
      | (Inl e, w1) \<Rightarrow> quote_unverified E account_id target_currency amount w1)"

section \<open>Notions used to state the properties\<close>

text \<open>
  What each fetcher makes of the partner's answer: the transport exception, the decoded
  body of a 200 response, or an \<open>Exception\<close> whose message is \<open>prefix\<close>, the status code and
  the response text.
\<close>

definition checked_json :: "string \<Rightarrow> pyexn + response \<Rightarrow> pyexn + pyval" where
  "checked_json prefix r =
     (case r of
        Inl e \<Rightarrow> Inl e
      | Inr response \<Rightarrow>
          if status_code response = 200 then
            (case json response of None \<Rightarrow> Inl JSONDecodeError | Some v \<Rightarrow> Inr v)
          else Inl (Exception (prefix @ str_int (status_code response) @ '' - ''
                               @ text_body response)))"

text \<open>The two per-call identifiers a request carries.\<close>

definition call_ids :: "request \<Rightarrow> string option list" where
  "call_ids req =
     [map_of (headers req) ''x-interactions-id'', map_of (headers req) ''x-idempotency-key'']"

text \<open>
  Every identifier sent so far is a value the generator has yielded, and no draw of the
  generator was sent twice.
\<close>

definition ids_fresh :: "env \<Rightarrow> world \<Rightarrow> bool" where
  "ids_fresh E w =
     (\<exists>ks. concat (map call_ids (sent w)) = map (\<lambda>k. Some (uuid_source E k)) ks
           \<and> distinct ks \<and> (\<forall>k \<in> set ks. k < uuids_drawn w))"

text \<open>The partner gives the balance call of \<open>account_id\<close> the answer \<open>r\<close>, whenever it is made.\<close>

definition balance_call_answers :: "env \<Rightarrow> pyval \<Rightarrow> pyexn + response \<Rightarrow> bool" where
  "balance_call_answers E account_id r =
     (\<forall>n hs. partner E n \<lparr>url = balances_url account_id, headers = hs, params = []\<rparr> = r)"

text \<open>The partner gives the call of \<open>get_fx_quote\<close> the answer \<open>r\<close>, whenever it is made.\<close>

definition fx_quote_call_answers :: "env \<Rightarrow> pyexn + response \<Rightarrow> bool" where
  "fx_quote_call_answers E r =
     (\<forall>n hs. partner E n \<lparr>url = Url fx_quote_url, headers = hs, params = []\<rparr> = r)"

definition ok_json :: "pyval \<Rightarrow> pyexn + response" where
  "ok_json v = Inr \<lparr>status_code = 200, text_body = [], json = Some v\<rparr>"

definition http_error :: "int \<Rightarrow> string \<Rightarrow> pyexn + response" where
  "http_error code body = Inr \<lparr>status_code = code, text_body = body, json = None\<rparr>"

text \<open>\<open>type(e).__name__\<close>: the class of an exception.\<close>

fun exn_class :: "pyexn \<Rightarrow> string" where
  "exn_class (Exception msg) = ''Exception''"
| "exn_class (ValueError msg) = ''ValueError''"
| "exn_class TypeError = ''TypeError''"
| "exn_class AttributeError = ''AttributeError''"
| "exn_class (KeyError k) = ''KeyError''"
| "exn_class JSONDecodeError = ''JSONDecodeError''"
| "exn_class (HTTPError msg) = ''HTTPError''"
| "exn_class OverflowError = ''OverflowError''"

text \<open>The class of what a call raised; \<open>None\<close> when it returned.\<close>

definition raised_class :: "pyexn + 'a \<Rightarrow> string option" where
  "raised_class r = (case r of Inl e \<Rightarrow> Some (exn_class e) | Inr v \<Rightarrow> None)"

text \<open>
  The entry \<open>get_accounts_with_balances\<close> returns for the listed account \<open>d\<close> when the
  partner gives its balance call the answer \<open>r\<close>: the enriched account, or the account as
  listed when the call or the enrichment fails.
\<close>

definition returned_entry :: "pydict \<Rightarrow> pyexn + response \<Rightarrow> pyval" where
  "returned_entry d r =
     (case checked_json ''JoPACC Balance API Error: '' r of
        Inl e \<Rightarrow> PDict d
      | Inr balance_response \<Rightarrow>
          (case account_with_balance (PDict d) balance_response of
             Inl e \<Rightarrow> PDict d
           | Inr enriched \<Rightarrow> enriched))"

text \<open>
  \<open>e\<close> is the account \<open>d\<close> up to the two fields the enrichment writes.
\<close>

definition same_but_enrichment :: "pydict \<Rightarrow> pyval \<Rightarrow> bool" where
  "same_but_enrichment d e =
     (\<exists>d'. e = PDict d' \<and>
        (\<forall>k. k \<noteq> ''detailed_balances'' \<longrightarrow> k \<noteq> ''balance_last_updated'' \<longrightarrow>
             map_of d' k = map_of d k))"

text \<open>\<open>account["balance"]["current"]\<close>, as \<open>get_user_accounts\<close> reads it.\<close>

definition balance_current :: "pyval \<Rightarrow> pyexn + pyval" where
  "balance_current account =
     (case py_subscript account ''balance'' of
        Inl e \<Rightarrow> Inl e
      | Inr balance \<Rightarrow> py_subscript balance ''current'')"

text \<open>\<open>a + b\<close> for numbers; the left operand of the sum below is always a number.\<close>

fun py_number :: "pyval \<Rightarrow> (int + pyval) option" where
  "py_number (PInt i) = Some (Inl i)"
| "py_number (PBool b) = Some (Inl (if b then 1 else 0))"
| "py_number (PFloat f) = Some (Inr (PFloat f))"
| "py_number (PInf s) = Some (Inr (PInf s))"
| "py_number PNaN = Some (Inr PNaN)"
| "py_number _ = None"

text \<open>The sum of two floats: opposite infinities and anything with \<open>nan\<close> give \<open>nan\<close>.\<close>

fun float_add :: "pyval \<Rightarrow> pyval \<Rightarrow> pyval" where
  "float_add (PFloat f) (PFloat g) = py_float (f + g)"
| "float_add (PInf s) (PInf t) = (if s = t then PInf s else PNaN)"
| "float_add (PInf s) (PFloat g) = PInf s"
| "float_add (PFloat f) (PInf t) = PInf t"
| "float_add _ _ = PNaN"

definition py_add :: "pyval \<Rightarrow> pyval \<Rightarrow> pyexn + pyval" where
  "py_add a b =
     (case (py_number a, py_number b) of
        (Some (Inl i), Some (Inl j)) \<Rightarrow> Inr (PInt (i + j))
      | (Some (Inl i), Some (Inr g)) \<Rightarrow>
          (case float_of_int i of Inl e \<Rightarrow> Inl e | Inr f \<Rightarrow> Inr (float_add (PFloat f) g))
      | (Some (Inr f), Some (Inl j)) \<Rightarrow>
          (case float_of_int j of Inl e \<Rightarrow> Inl e | Inr g \<Rightarrow> Inr (float_add f (PFloat g)))
      | (Some (Inr f), Some (Inr g)) \<Rightarrow> Inr (float_add f g)
      | _ \<Rightarrow> Inl TypeError)"

text \<open>\<open>sum(account["balance"]["current"] for account in accounts)\<close>, from the running total \<open>acc\<close>.\<close>

fun sum_current :: "pyval list \<Rightarrow> pyval \<Rightarrow> pyexn + pyval" where
  "sum_current [] acc = Inr acc"
| "sum_current (account # rest) acc =
     (case balance_current account of
        Inl e \<Rightarrow> Inl e
      | Inr current \<Rightarrow>
          (case py_add acc current of
             Inl e \<Rightarrow> Inl e
           | Inr t \<Rightarrow> sum_current rest t))"

text \<open>The account \<open>d\<close> enriched from the balance response \<open>b\<close>, both dicts.\<close>

definition enriched_with :: "pydict \<Rightarrow> pydict \<Rightarrow> pydict" where
  "enriched_with d b =
     AList.update ''balance_last_updated''
       (dict_get b ''lastUpdated'' (dict_get d ''lastUpdated'' PNone))
       (AList.update ''detailed_balances'' (dict_get b ''balances'' (PList [])) d)"

text \<open>
  The calls a client of the service makes, and the world after a sequence of them; the
  results are dropped, only what was sent matters below.
\<close>

datatype call =
    GetAccountsNew int "string option" int "string option" string
  | GetAccountBalances pyval string
  | GetAccountsWithBalances int int
  | GetFxRates
  | GetFxQuote string "rat option"
  | GetFxRatesForAccount string
  | GetFxQuoteForAccount string string "rat option"

fun after_call :: "env \<Rightarrow> call \<Rightarrow> world \<Rightarrow> world" where
  "after_call E (GetAccountsNew skip account_type limit account_status sort_order) w =
     snd (get_accounts_new E skip account_type limit account_status sort_order w)"
| "after_call E (GetAccountBalances account_id customer_ip) w =
     snd (get_account_balances E account_id customer_ip w)"
| "after_call E (GetAccountsWithBalances skip limit) w =
     snd (get_accounts_with_balances E skip limit w)"
| "after_call E GetFxRates w = snd (get_fx_rates E w)"
| "after_call E (GetFxQuote target_currency amount) w =
     snd (get_fx_quote E target_currency amount w)"
| "after_call E (GetFxRatesForAccount account_id) w =
     snd (get_fx_rates_for_account E account_id w)"
| "after_call E (GetFxQuoteForAccount account_id target_currency amount) w =
     snd (get_fx_quote_for_account E account_id target_currency amount w)"

text \<open>The world when the process starts: nothing drawn, nothing sent.\<close>

definition w0 :: world where
  "w0 = \<lparr>uuids_drawn = 0, clock_reads = 0, sent = []\<rparr>"

text \<open>
  The rate \<open>get_fx_quote\<close> uses: the first rate of the list whose \<open>targetCurrency\<close> is the
  requested one, and the first rate of the list when there is none.
\<close>

definition selected_rate :: "pydict list \<Rightarrow> string \<Rightarrow> pydict" where
  "selected_rate rates target_currency =
     (case find (\<lambda>d. dict_get d ''targetCurrency'' PNone = PStr target_currency) rates of
        Some d \<Rightarrow> d
      | None \<Rightarrow> hd rates)"

text \<open>
  The quote built from the rate \<open>d\<close>, reported under the currency \<open>target\<close>: the common text of
  the two \<open>return\<close> statements of \<open>get_fx_quote\<close>.
\<close>

definition quote_of_rate ::
  "env \<Rightarrow> pydict \<Rightarrow> pyval \<Rightarrow> rat option \<Rightarrow> world \<Rightarrow> (pyexn + pydict) \<times> world" where
  "quote_of_rate E d target amount w =
     (case converted_amount amount (dict_get d ''conversionValue'' (PFloat 1)) of
        Inl e \<Rightarrow> (Inl e, w)
      | Inr converted \<Rightarrow>
          (Inr (fst (quote_dict E (dict_get d ''sourceCurrency'' (PStr ''JOD'')) target
                       (dict_get d ''conversionValue'' (PFloat 1)) amount converted w)),
           snd (quote_dict E (dict_get d ''sourceCurrency'' (PStr ''JOD'')) target
                  (dict_get d ''conversionValue'' (PFloat 1)) amount converted w)))"

text \<open>
  The quote \<open>q\<close> has the rate and the currencies of \<open>d\<close>, with the defaults of the code where
  \<open>d\<close> lacks a field: the rate 1.0, the source JOD and the requested currency as target.
\<close>

definition quote_reports :: "pydict \<Rightarrow> pydict \<Rightarrow> string \<Rightarrow> bool" where
  "quote_reports q d target_currency =
     (map_of q ''rate'' = Some (dict_get d ''conversionValue'' (PFloat 1)) \<and>
      map_of q ''targetCurrency'' = Some (dict_get d ''targetCurrency'' (PStr target_currency)) \<and>
      map_of q ''baseCurrency'' = Some (dict_get d ''sourceCurrency'' (PStr ''JOD'')))"

text \<open>The keys of every quote \<open>get_fx_quote\<close> returns.\<close>

definition quote_keys :: "string list" where
  "quote_keys =
     [''quoteId'', ''baseCurrency'', ''targetCurrency'', ''rate'', ''amount'',
      ''convertedAmount'', ''validUntil'', ''timestamp'']"

text \<open>A quote that is returned was built by \<open>quote_dict\<close> from a converted amount.\<close>

definition built_quote :: "env \<Rightarrow> rat option \<Rightarrow> pydict \<Rightarrow> bool" where
  "built_quote E amount q =
     (\<exists>b t r c w. converted_amount amount r = Inr c \<and> q = fst (quote_dict E b t r amount c w))"

text \<open>
  The dict the \<open>try\<close> block of \<open>get_fx_quote_for_account\<close> returns for the verified currency
  \<open>cur\<close> and the quote \<open>q\<close>, and the dict its \<open>except\<close> block returns for the quote \<open>q\<close>.
\<close>

definition verified_quote :: "string \<Rightarrow> pyval \<Rightarrow> string \<Rightarrow> rat option \<Rightarrow> pydict \<Rightarrow> pydict" where
  "verified_quote account_id cur target_currency amount q =
     [(''account_id'', PStr account_id),
      (''account_currency'', cur),
      (''quote_data'', PDict q),
      (''base_currency'', dict_get q ''baseCurrency'' cur),
      (''target_currency'', PStr target_currency),
      (''rate'', dict_get q ''rate'' (PFloat 1)),
      (''amount'', amount_value amount),
      (''converted_amount'', dict_get q ''convertedAmount'' PNone),
      (''quote_id'', dict_get q ''quoteId'' PNone),
      (''valid_until'', dict_get q ''validUntil'' PNone),
      (''timestamp'', dict_get q ''timestamp'' PNone)]"

definition degraded_quote :: "string \<Rightarrow> pydict \<Rightarrow> pydict" where
  "degraded_quote account_id q =
     AList.update ''warning'' (PStr quote_warning)
       (dict_merge [(''account_id'', PStr account_id),
                    (''account_currency'', PStr ''JOD''),
                    (''quote_data'', PDict q)] q)"

section \<open>Concrete environments\<close>

text \<open>A generator that never repeats, a running clock and opaque date formats.\<close>

definition demo_uuid :: "nat \<Rightarrow> string" where
  "demo_uuid k = replicate (Suc k) (CHR ''u'')"

definition demo_env :: "(nat \<Rightarrow> request \<Rightarrow> pyexn + response) \<Rightarrow> env" where
  "demo_env p =
     \<lparr>getenv = (\<lambda>name. None), uuid_source = demo_uuid, clock = (\<lambda>k. 1000000 * int k),
      strftime = (\<lambda>t. ''D'' @ str_int t), isoformat = (\<lambda>t. ''I'' @ str_int t),
      partner = p\<rparr>"

text \<open>Three accounts in JOD with current balances 100.00, 200.50 and 50.25.\<close>

definition demo_account :: "string \<Rightarrow> rat \<Rightarrow> pydict" where
  "demo_account account_id current =
     [(''accountId'', PStr account_id),
      (''currency'', PStr ''JOD''),
      (''balance'', PDict [(''current'', PFloat current), (''available'', PFloat current)]),
      (''lastUpdated'', PStr ''2025-01-01T00:00:00Z'')]"

definition demo_accounts :: "pydict list" where
  "demo_accounts =
     [demo_account ''acc_1'' 100, demo_account ''acc_2'' (401 / 2), demo_account ''acc_3'' (201 / 4)]"

definition demo_accounts_response :: pyval where
  "demo_accounts_response =
     PDict [(''accounts'', PList (map PDict demo_accounts)), (''hasMore'', PBool False)]"

definition demo_balances :: pydict where
  "demo_balances =
     [(''balances'', PList [PDict [(''type'', PStr ''ClosingAvailable''), (''currency'', PStr ''JOD'')]]),
      (''lastUpdated'', PStr ''2025-02-02T00:00:00Z'')]"

text \<open>The rate table \<open>{USD: 0.709, EUR: 0.647}\<close>, the numbers as \<open>response.json()\<close> decodes them.\<close>

definition demo_rates :: "pydict list" where
  "demo_rates =
     [[(''sourceCurrency'', PStr ''JOD''), (''targetCurrency'', PStr ''USD''),
       (''conversionValue'', PFloat (dbl_round (709 / 1000)))],
      [(''sourceCurrency'', PStr ''JOD''), (''targetCurrency'', PStr ''EUR''),
       (''conversionValue'', PFloat (dbl_round (647 / 1000)))]]"

definition demo_fx_response :: pyval where
  "demo_fx_response = PDict [(''data'', PList (map PDict demo_rates))]"

text \<open>The answer to the balance call of \<open>account_id\<close> when that of \<open>failing\<close> fails.\<close>

definition demo_balance_response :: "pyval \<Rightarrow> pyval \<Rightarrow> response" where
  "demo_balance_response failing account_id =
     (if account_id = failing
      then \<lparr>status_code = 500, text_body = ''Internal Server Error'', json = None\<rparr>
      else \<lparr>status_code = 200, text_body = [], json = Some (PDict demo_balances)\<rparr>)"

text \<open>
  A partner that lists the three accounts, answers the balance call of every account but
  \<open>failing\<close> (HTTP 500 for that one), and serves the rate table on both FX endpoints.
\<close>

definition demo_partner :: "pyval \<Rightarrow> nat \<Rightarrow> request \<Rightarrow> pyexn + response" where
  "demo_partner failing n req =
     (case url req of
        Url u \<Rightarrow>
          if u = accounts_url then ok_json demo_accounts_response
          else ok_json demo_fx_response
      | UrlFmt p account_id s \<Rightarrow>
          Inr (demo_balance_response failing account_id))"

text \<open>A partner whose accounts endpoint is down (HTTP 503); the FX endpoints answer.\<close>

definition partner_accounts_down :: "nat \<Rightarrow> request \<Rightarrow> pyexn + response" where
  "partner_accounts_down n req =
     (case url req of
        Url u \<Rightarrow>
          if u = accounts_url then http_error 503 ''Service Unavailable''
          else ok_json demo_fx_response
      | UrlFmt p account_id s \<Rightarrow> http_error 404 ''Not Found'')"

text \<open>A partner that answers nothing (HTTP 503 everywhere).\<close>

definition partner_down :: "nat \<Rightarrow> request \<Rightarrow> pyexn + response" where
  "partner_down n req = http_error 503 ''Service Unavailable''"

section \<open>The range of the floats\<close>

lemma bitlen_nonneg: "0 \<le> bitlen n"
  by (induction n rule: bitlen.induct) (subst bitlen.simps, simp)

text \<open>\<open>bitlen n\<close> is the number of binary digits of \<open>n\<close>.\<close>

lemma bitlen_gt: "(int k < bitlen n) = (2 ^ k \<le> n)"
proof (induction k arbitrary: n)
  case 0
  show ?case using bitlen_nonneg [of "n div 2"] by (subst bitlen.simps) auto
next
  case (Suc k)
  have "(int (Suc k) < bitlen n) = (0 < n \<and> int k < bitlen (n div 2))"
    by (subst bitlen.simps) auto
  also have "\<dots> = (0 < n \<and> 2 ^ k \<le> n div 2)" by (simp add: Suc.IH)
  also have "\<dots> = (2 ^ Suc k \<le> n)"
  proof -
    have "(2 ^ k \<le> n div 2) = (2 * 2 ^ k \<le> n)"
      by presburger
    moreover have "0 < n" if "2 * 2 ^ k \<le> n"
    proof -
      have "(0::int) < 2 * 2 ^ k" by simp
      from this that show ?thesis by (rule less_le_trans)
    qed
    ultimately show ?thesis by auto
  qed
  finally show ?case .
qed

text \<open>The magnitudes that overflow are those from \<open>2 ^ 1024\<close> on.\<close>

lemma overflows_iff: "overflows y = (2 ^ 1024 \<le> \<bar>y\<bar>)"
proof -
  have "overflows y = (2 ^ 1024 \<le> \<lfloor>\<bar>y\<bar>\<rfloor>)"
    using bitlen_gt [of 1024 "\<lfloor>\<bar>y\<bar>\<rfloor>"] by (simp add: overflows_def)
  also have "\<dots> = (2 ^ 1024 \<le> \<bar>y\<bar>)"
    using le_floor_iff [of "2 ^ 1024" "\<bar>y\<bar>"] by simp
  finally show ?thesis .
qed

section \<open>The outbound calls\<close>

lemma get_accounts_new_request_world:
  "sent (snd (get_accounts_new_request E sk ty li st so w)) = sent w"
  "uuids_drawn (snd (get_accounts_new_request E sk ty li st so w)) = uuids_drawn w + 2"
  by (simp_all add: get_accounts_new_request_def get_accounts_new_headers_def utcnow_def
        str_uuid4_def split_def)

lemma get_account_balances_request_world:
  "sent (snd (get_account_balances_request E aid ip w)) = sent w"
  "uuids_drawn (snd (get_account_balances_request E aid ip w)) = uuids_drawn w + 2"
  by (simp_all add: get_account_balances_request_def get_account_balances_headers_def
        utcnow_def str_uuid4_def split_def)

lemma get_fx_rates_request_world:
  "sent (snd (get_fx_rates_request E w)) = sent w"
  "uuids_drawn (snd (get_fx_rates_request E w)) = uuids_drawn w + 2"
  by (simp_all add: get_fx_rates_request_def get_headers_def utcnow_def str_uuid4_def split_def)

lemma get_fx_quote_request_world:
  "sent (snd (get_fx_quote_request E w)) = sent w"
  "uuids_drawn (snd (get_fx_quote_request E w)) = uuids_drawn w + 2"
  by (simp_all add: get_fx_quote_request_def get_fx_quote_headers_def str_uuid4_def split_def)

lemma get_accounts_new_fst:
  "fst (get_accounts_new E sk ty li st so w) =
     checked_json ''JoPACC API Error: ''
       (partner E (length (sent w)) (fst (get_accounts_new_request E sk ty li st so w)))"
  by (simp add: get_accounts_new_def http_get_def checked_json_def split_def Let_def
        get_accounts_new_request_world split: sum.splits option.splits)

lemma get_accounts_new_snd:
  "snd (get_accounts_new E sk ty li st so w) =
     (snd (get_accounts_new_request E sk ty li st so w))
       \<lparr>sent := sent w @ [fst (get_accounts_new_request E sk ty li st so w)]\<rparr>"
  by (simp add: get_accounts_new_def http_get_def split_def Let_def get_accounts_new_request_world
        split: sum.splits option.splits)

lemma get_account_balances_fst:
  "fst (get_account_balances E aid ip w) =
     checked_json ''JoPACC Balance API Error: ''
       (partner E (length (sent w)) (fst (get_account_balances_request E aid ip w)))"
  by (simp add: get_account_balances_def http_get_def checked_json_def split_def Let_def
        get_account_balances_request_world split: sum.splits option.splits)

lemma get_account_balances_snd:
  "snd (get_account_balances E aid ip w) =
     (snd (get_account_balances_request E aid ip w))
       \<lparr>sent := sent w @ [fst (get_account_balances_request E aid ip w)]\<rparr>"
  by (simp add: get_account_balances_def http_get_def split_def Let_def
        get_account_balances_request_world split: sum.splits option.splits)

lemma get_fx_rates_fst:
  "fst (get_fx_rates E w) =
     checked_json ''JoPACC FX Rates API Error: ''
       (partner E (length (sent w)) (fst (get_fx_rates_request E w)))"
  by (simp add: get_fx_rates_def http_get_def checked_json_def split_def Let_def
        get_fx_rates_request_world split: sum.splits option.splits)

lemma get_fx_rates_snd:
  "snd (get_fx_rates E w) =
     (snd (get_fx_rates_request E w))\<lparr>sent := sent w @ [fst (get_fx_rates_request E w)]\<rparr>"
  by (simp add: get_fx_rates_def http_get_def split_def Let_def get_fx_rates_request_world
        split: sum.splits option.splits)

section \<open>The aggregation loop\<close>

lemma account_with_balance_dicts:
  "account_with_balance (PDict d) (PDict b) =
     Inr (PDict (AList.update ''balance_last_updated''
                   (dict_get b ''lastUpdated'' (dict_get d ''lastUpdated'' PNone))
                   (AList.update ''detailed_balances'' (dict_get b ''balances'' (PList [])) d)))"
  by (simp add: account_with_balance_def)

lemma account_with_balance_frame:
  assumes "account_with_balance (PDict d) b = Inr e"
  shows "same_but_enrichment d e"
proof (cases b)
  case (PDict bd)
  with assms show ?thesis
    by (auto simp: account_with_balance_dicts same_but_enrichment_def update_conv')
qed (use assms in \<open>simp_all add: account_with_balance_def\<close>)

lemma same_but_enrichment_refl: "same_but_enrichment d (PDict d)"
  by (simp add: same_but_enrichment_def)

lemma returned_entry_frame: "same_but_enrichment d (returned_entry d r)"
  by (auto simp: returned_entry_def same_but_enrichment_refl
      intro: account_with_balance_frame split: sum.splits)

lemma get_account_balances_answer:
  assumes "balance_call_answers E account_id r"
  shows "fst (get_account_balances E account_id ip w) =
           checked_json ''JoPACC Balance API Error: '' r"
proof -
  have "fst (get_account_balances_request E account_id ip w) =
          \<lparr>url = balances_url account_id,
           headers = fst (get_account_balances_headers E ip w), params = []\<rparr>"
    by (simp add: get_account_balances_request_def split_def Let_def)
  with assms show ?thesis
    by (simp add: get_account_balances_fst balance_call_answers_def)
qed

text \<open>One turn of the loop on an account that is a dict.\<close>

lemma enrich_loop_turn:
  "\<exists>e w1. enrich_loop E (PDict d # rest) acc w = enrich_loop E rest (acc @ [e]) w1
          \<and> same_but_enrichment d e"
proof (cases "py_truthy (dict_get d ''accountId'' PNone)")
  case False
  then have "enrich_loop E (PDict d # rest) acc w = enrich_loop E rest (acc @ [PDict d]) w"
    by simp
  then show ?thesis using same_but_enrichment_refl by blast
next
  case True
  obtain r w1 where call:
    "get_account_balances E (dict_get d ''accountId'' PNone) ''127.0.0.1'' w = (r, w1)"
    by (cases "get_account_balances E (dict_get d ''accountId'' PNone) ''127.0.0.1'' w")
  show ?thesis
  proof (cases r)
    case (Inl x)
    with True call
    have "enrich_loop E (PDict d # rest) acc w = enrich_loop E rest (acc @ [PDict d]) w1"
      by simp
    then show ?thesis using same_but_enrichment_refl by blast
  next
    case (Inr b)
    show ?thesis
    proof (cases "account_with_balance (PDict d) b")
      case (Inl x)
      with True call \<open>r = Inr b\<close>
      have "enrich_loop E (PDict d # rest) acc w = enrich_loop E rest (acc @ [PDict d]) w1"
        by simp
      then show ?thesis using same_but_enrichment_refl by blast
    next
      case (Inr e)
      with True call \<open>r = Inr b\<close>
      have "enrich_loop E (PDict d # rest) acc w = enrich_loop E rest (acc @ [e]) w1"
        by simp
      moreover from Inr have "same_but_enrichment d e"
        by (rule account_with_balance_frame)
      ultimately show ?thesis by blast
    qed
  qed
qed

text \<open>Whatever the partner does, the loop ends and adds one entry per listed account.\<close>

lemma enrich_loop_total:
  "\<exists>out w'. enrich_loop E (map PDict ds) acc w = (Inr (acc @ out), w')
            \<and> list_all2 same_but_enrichment ds out"
proof (induction ds arbitrary: acc w)
  case Nil
  show ?case by simp
next
  case (Cons d ds)
  from enrich_loop_turn [of E d "map PDict ds" acc w] obtain e w1 where
    step: "enrich_loop E (PDict d # map PDict ds) acc w =
             enrich_loop E (map PDict ds) (acc @ [e]) w1"
    and e: "same_but_enrichment d e"
    by blast
  from Cons.IH [of "acc @ [e]" w1] obtain out w' where
    out: "enrich_loop E (map PDict ds) (acc @ [e]) w1 = (Inr ((acc @ [e]) @ out), w')"
    and rel: "list_all2 same_but_enrichment ds out"
    by blast
  have "enrich_loop E (map PDict (d # ds)) acc w = (Inr (acc @ (e # out)), w')"
    using step out by (simp del: enrich_loop.simps)
  moreover have "list_all2 same_but_enrichment (d # ds) (e # out)"
    using e rel by simp
  ultimately show ?case by blast
qed

text \<open>With the partner's answers to the balance calls known, so are the entries.\<close>

lemma enrich_loop_answers:
  assumes "\<forall>d \<in> set ds. py_truthy (dict_get d ''accountId'' PNone) \<and>
             balance_call_answers E (dict_get d ''accountId'' PNone)
               (answer (dict_get d ''accountId'' PNone))"
  shows "\<exists>w'. enrich_loop E (map PDict ds) acc w =
           (Inr (acc @ map (\<lambda>d. returned_entry d (answer (dict_get d ''accountId'' PNone))) ds), w')"
  using assms
proof (induction ds arbitrary: acc w)
  case Nil
  show ?case by simp
next
  case (Cons d ds)
  let ?id = "dict_get d ''accountId'' PNone"
  let ?e = "returned_entry d (answer ?id)"
  from Cons.prems have truthy: "py_truthy ?id" and ans: "balance_call_answers E ?id (answer ?id)"
    by simp_all
  have fst_bal: "fst (get_account_balances E ?id ''127.0.0.1'' w) =
      checked_json ''JoPACC Balance API Error: '' (answer ?id)"
    by (rule get_account_balances_answer [OF ans])
  obtain r w1 where call: "get_account_balances E ?id ''127.0.0.1'' w = (r, w1)"
    by (cases "get_account_balances E ?id ''127.0.0.1'' w")
  with fst_bal have r: "checked_json ''JoPACC Balance API Error: '' (answer ?id) = r"
    by simp
  have step: "enrich_loop E (PDict d # map PDict ds) acc w =
               enrich_loop E (map PDict ds) (acc @ [?e]) w1"
  proof (cases r)
    case (Inl x)
    with r have "?e = PDict d" by (simp add: returned_entry_def)
    with Inl truthy call show ?thesis by simp
  next
    case (Inr b)
    show ?thesis
    proof (cases "account_with_balance (PDict d) b")
      case (Inl x)
      with r \<open>r = Inr b\<close> have "?e = PDict d" by (simp add: returned_entry_def)
      with Inl \<open>r = Inr b\<close> truthy call show ?thesis by simp
    next
      case (Inr e)
      with r \<open>r = Inr b\<close> have "?e = e" by (simp add: returned_entry_def)
      with Inr \<open>r = Inr b\<close> truthy call show ?thesis by simp
    qed
  qed
  from Cons.prems have "\<forall>d \<in> set ds. py_truthy (dict_get d ''accountId'' PNone) \<and>
             balance_call_answers E (dict_get d ''accountId'' PNone)
               (answer (dict_get d ''accountId'' PNone))" by simp
  from Cons.IH [OF this, of "acc @ [?e]" w1] obtain w' where
    "enrich_loop E (map PDict ds) (acc @ [?e]) w1 =
       (Inr ((acc @ [?e]) @ map (\<lambda>d. returned_entry d (answer (dict_get d ''accountId'' PNone))) ds), w')"
    by blast
  with step have "enrich_loop E (map PDict (d # ds)) acc w =
      (Inr (acc @ map (\<lambda>d. returned_entry d (answer (dict_get d ''accountId'' PNone))) (d # ds)), w')"
    by (simp del: enrich_loop.simps)
  then show ?case by blast
qed

lemma same_but_enrichmentD:
  assumes "same_but_enrichment d e" "k \<noteq> ''detailed_balances''" "k \<noteq> ''balance_last_updated''"
  shows "\<exists>d'. e = PDict d' \<and> map_of d' k = map_of d k"
  using assms unfolding same_but_enrichment_def by blast

lemma frame_balance_current:
  assumes "same_but_enrichment d e"
  shows "balance_current e = balance_current (PDict d)"
proof -
  have "''balance'' \<noteq> ''detailed_balances''" "''balance'' \<noteq> ''balance_last_updated''"
    by simp_all
  from same_but_enrichmentD [OF assms this]
  obtain d' where "e = PDict d'" "map_of d' ''balance'' = map_of d ''balance''"
    by blast
  then show ?thesis by (simp add: balance_current_def)
qed

lemma frame_account_id:
  assumes "same_but_enrichment d e"
  shows "py_get e ''accountId'' PNone = py_get (PDict d) ''accountId'' PNone"
proof -
  have "''accountId'' \<noteq> ''detailed_balances''" "''accountId'' \<noteq> ''balance_last_updated''"
    by simp_all
  from same_but_enrichmentD [OF assms this]
  obtain d' where "e = PDict d'" "map_of d' ''accountId'' = map_of d ''accountId''"
    by blast
  then show ?thesis by (simp add: dict_get_def)
qed

lemma sum_current_cong:
  "map balance_current xs = map balance_current ys \<Longrightarrow> sum_current xs t = sum_current ys t"
proof (induction xs arbitrary: ys t)
  case Nil
  then show ?case by simp
next
  case (Cons x xs)
  then obtain y ys' where ys: "ys = y # ys'" by (cases ys) auto
  with Cons.prems have "balance_current x = balance_current y"
    "map balance_current xs = map balance_current ys'" by simp_all
  with Cons.IH ys show ?case by (simp split: sum.splits)
qed

section \<open>What the FX calls send\<close>

lemma quote_dict_world:
  "sent (snd (quote_dict E b t r a c w)) = sent w"
  "uuids_drawn (snd (quote_dict E b t r a c w)) = Suc (uuids_drawn w)"
  by (simp_all add: quote_dict_def str_uuid4_def utcnow_def split_def)

lemma match_loop_world:
  "sent (snd (match_loop E rates tc amount w)) = sent w \<and>
   uuids_drawn w \<le> uuids_drawn (snd (match_loop E rates tc amount w))"
proof (induction rates)
  case Nil
  show ?case by simp
next
  case (Cons fx_rate rates)
  show ?case
  proof (cases fx_rate)
    case (PDict d)
    show ?thesis
    proof (cases "dict_get d ''targetCurrency'' PNone = PStr tc")
      case True
      with PDict show ?thesis
        by (simp add: quote_dict_world split_def Let_def split: sum.splits)
    next
      case False
      with PDict Cons.IH show ?thesis by simp
    qed
  qed simp_all
qed

lemma first_rate_quote_world:
  "sent (snd (first_rate_quote E data tc amount w)) = sent w \<and>
   uuids_drawn w \<le> uuids_drawn (snd (first_rate_quote E data tc amount w))"
  by (simp add: first_rate_quote_def quote_dict_world split_def Let_def
      split: pyval.splits list.splits sum.splits)

lemma quote_from_fx_data_world:
  "sent (snd (quote_from_fx_data E fx_data tc amount w)) = sent w \<and>
   uuids_drawn w \<le> uuids_drawn (snd (quote_from_fx_data E fx_data tc amount w))"
proof -
  have loop: "\<And>rates data.
      sent (snd (case match_loop E rates tc amount w of
                   (Some r, w1) \<Rightarrow> (r, w1)
                 | (None, w1) \<Rightarrow>
                     if py_truthy data then first_rate_quote E data tc amount w1
                     else (Inl (Exception ''JoPACC FX API returned no data''), w1))) = sent w
      \<and> uuids_drawn w \<le>
        uuids_drawn (snd (case match_loop E rates tc amount w of
                   (Some r, w1) \<Rightarrow> (r, w1)
                 | (None, w1) \<Rightarrow>
                     if py_truthy data then first_rate_quote E data tc amount w1
                     else (Inl (Exception ''JoPACC FX API returned no data''), w1)))"
  proof -
    fix rates data
    obtain r w1 where m: "match_loop E rates tc amount w = (r, w1)"
      by (cases "match_loop E rates tc amount w")
    with match_loop_world [of E rates tc amount w]
    have w1: "sent w1 = sent w" "uuids_drawn w \<le> uuids_drawn w1" by simp_all
    show "sent (snd (case match_loop E rates tc amount w of
                   (Some r, w1) \<Rightarrow> (r, w1)
                 | (None, w1) \<Rightarrow>
                     if py_truthy data then first_rate_quote E data tc amount w1
                     else (Inl (Exception ''JoPACC FX API returned no data''), w1))) = sent w
      \<and> uuids_drawn w \<le>
        uuids_drawn (snd (case match_loop E rates tc amount w of
                   (Some r, w1) \<Rightarrow> (r, w1)
                 | (None, w1) \<Rightarrow>
                     if py_truthy data then first_rate_quote E data tc amount w1
                     else (Inl (Exception ''JoPACC FX API returned no data''), w1)))"
    proof (cases r)
      case None
      with m w1 first_rate_quote_world [of E data tc amount w1] show ?thesis
        by auto
    next
      case (Some x)
      with m w1 show ?thesis by simp
    qed
  qed
  show ?thesis
    unfolding quote_from_fx_data_def
    using loop by (simp split: sum.splits bool.splits)
qed

lemma get_fx_quote_world:
  "sent (snd (get_fx_quote E tc amount w)) = sent w @ [fst (get_fx_quote_request E w)]"
  "uuids_drawn w + 2 \<le> uuids_drawn (snd (get_fx_quote E tc amount w))"
proof -
  let ?req = "fst (get_fx_quote_request E w)"
  let ?w1 = "(snd (get_fx_quote_request E w))\<lparr>sent := sent w @ [?req]\<rparr>"
  have w1: "sent ?w1 = sent w @ [?req]" "uuids_drawn ?w1 = uuids_drawn w + 2"
    by (simp_all add: get_fx_quote_request_world)
  have "sent (snd (get_fx_quote E tc amount w)) = sent w @ [?req] \<and>
        uuids_drawn w + 2 \<le> uuids_drawn (snd (get_fx_quote E tc amount w))"
  proof (cases "partner E (length (sent w)) ?req")
    case (Inl e)
    then show ?thesis
      by (simp add: get_fx_quote_def http_get_def split_def Let_def get_fx_quote_request_world)
  next
    case (Inr response)
    show ?thesis
    proof (cases "status_code response = 200 \<and> json response \<noteq> None")
      case False
      with Inr show ?thesis
        by (auto simp: get_fx_quote_def http_get_def split_def Let_def get_fx_quote_request_world)
    next
      case True
      then obtain fx_data where "json response = Some fx_data" by auto
      with True Inr have "get_fx_quote E tc amount w = quote_from_fx_data E fx_data tc amount ?w1"
        by (simp add: get_fx_quote_def http_get_def split_def Let_def get_fx_quote_request_world)
      with quote_from_fx_data_world [of E fx_data tc amount ?w1] w1 show ?thesis
        by simp
    qed
  qed
  then show "sent (snd (get_fx_quote E tc amount w)) = sent w @ [fst (get_fx_quote_request E w)]"
    "uuids_drawn w + 2 \<le> uuids_drawn (snd (get_fx_quote E tc amount w))"
    by simp_all
qed

section \<open>Identifiers are drawn anew for every call\<close>

lemma ids_fresh_w0: "ids_fresh E w0"
  by (simp add: ids_fresh_def w0_def)

lemma ids_fresh_step:
  assumes "ids_fresh E w"
    and "sent w' = sent w @ [req]"
    and "call_ids req = [Some (uuid_source E i), Some (uuid_source E j)]"
    and "i \<noteq> j" "uuids_drawn w \<le> i" "uuids_drawn w \<le> j"
    and "i < uuids_drawn w'" "j < uuids_drawn w'"
  shows "ids_fresh E w'"
proof -
  from assms(1) obtain ks where ks:
    "concat (map call_ids (sent w)) = map (\<lambda>k. Some (uuid_source E k)) ks"
    "distinct ks" "\<forall>k \<in> set ks. k < uuids_drawn w"
    unfolding ids_fresh_def by blast
  have "concat (map call_ids (sent w')) = map (\<lambda>k. Some (uuid_source E k)) (ks @ [i, j])"
    using ks(1) assms(2,3) by simp
  moreover have "distinct (ks @ [i, j])"
    using ks(2,3) assms(4,5,6) by auto
  moreover have "\<forall>k \<in> set (ks @ [i, j]). k < uuids_drawn w'"
    using ks(3) assms(5,7,8) by auto
  ultimately show ?thesis unfolding ids_fresh_def by blast
qed

lemma ids_fresh_mono:
  assumes "ids_fresh E w" "sent w' = sent w" "uuids_drawn w \<le> uuids_drawn w'"
  shows "ids_fresh E w'"
proof -
  from assms(1) obtain ks where ks:
    "concat (map call_ids (sent w)) = map (\<lambda>k. Some (uuid_source E k)) ks"
    "distinct ks" "\<forall>k \<in> set ks. k < uuids_drawn w"
    unfolding ids_fresh_def by blast
  from ks(3) assms(3) have "\<forall>k \<in> set ks. k < uuids_drawn w'" by auto
  with ks(1,2) assms(2) show ?thesis unfolding ids_fresh_def by auto
qed

lemma get_accounts_new_fresh:
  assumes "ids_fresh E w"
  shows "ids_fresh E (snd (get_accounts_new E sk ty li st so w))"
proof (rule ids_fresh_step [OF assms, where i = "Suc (uuids_drawn w)" and j = "uuids_drawn w"])
  show "sent (snd (get_accounts_new E sk ty li st so w)) =
      sent w @ [fst (get_accounts_new_request E sk ty li st so w)]"
    by (simp add: get_accounts_new_snd)
  show "call_ids (fst (get_accounts_new_request E sk ty li st so w)) =
      [Some (uuid_source E (Suc (uuids_drawn w))), Some (uuid_source E (uuids_drawn w))]"
    by (simp add: call_ids_def get_accounts_new_request_def get_accounts_new_headers_def
        str_uuid4_def utcnow_def split_def Let_def)
qed (simp_all add: get_accounts_new_snd get_accounts_new_request_world)

lemma get_account_balances_fresh:
  assumes "ids_fresh E w"
  shows "ids_fresh E (snd (get_account_balances E aid ip w))"
proof (rule ids_fresh_step [OF assms, where i = "Suc (uuids_drawn w)" and j = "uuids_drawn w"])
  show "sent (snd (get_account_balances E aid ip w)) =
      sent w @ [fst (get_account_balances_request E aid ip w)]"
    by (simp add: get_account_balances_snd)
  show "call_ids (fst (get_account_balances_request E aid ip w)) =
      [Some (uuid_source E (Suc (uuids_drawn w))), Some (uuid_source E (uuids_drawn w))]"
    by (simp add: call_ids_def get_account_balances_request_def get_account_balances_headers_def
        str_uuid4_def utcnow_def split_def Let_def)
qed (simp_all add: get_account_balances_snd get_account_balances_request_world)

lemma get_fx_rates_fresh:
  assumes "ids_fresh E w"
  shows "ids_fresh E (snd (get_fx_rates E w))"
proof (rule ids_fresh_step [OF assms, where i = "uuids_drawn w" and j = "Suc (uuids_drawn w)"])
  show "sent (snd (get_fx_rates E w)) = sent w @ [fst (get_fx_rates_request E w)]"
    by (simp add: get_fx_rates_snd)
  show "call_ids (fst (get_fx_rates_request E w)) =
      [Some (uuid_source E (uuids_drawn w)), Some (uuid_source E (Suc (uuids_drawn w)))]"
    by (simp add: call_ids_def get_fx_rates_request_def get_headers_def
        str_uuid4_def utcnow_def split_def Let_def)
qed (simp_all add: get_fx_rates_snd get_fx_rates_request_world)

lemma get_fx_quote_fresh:
  assumes "ids_fresh E w"
  shows "ids_fresh E (snd (get_fx_quote E tc amount w))"
proof (rule ids_fresh_step [OF assms, where i = "uuids_drawn w" and j = "Suc (uuids_drawn w)"])
  show "sent (snd (get_fx_quote E tc amount w)) = sent w @ [fst (get_fx_quote_request E w)]"
    by (rule get_fx_quote_world)
  show "call_ids (fst (get_fx_quote_request E w)) =
      [Some (uuid_source E (uuids_drawn w)), Some (uuid_source E (Suc (uuids_drawn w)))]"
    by (simp add: call_ids_def get_fx_quote_request_def get_fx_quote_headers_def
        str_uuid4_def split_def Let_def)
  from get_fx_quote_world(2) [of w E tc amount]
  show "uuids_drawn w < uuids_drawn (snd (get_fx_quote E tc amount w))"
    "Suc (uuids_drawn w) < uuids_drawn (snd (get_fx_quote E tc amount w))"
    by simp_all
qed simp_all

lemma enrich_loop_fresh:
  "ids_fresh E w \<Longrightarrow> ids_fresh E (snd (enrich_loop E accounts acc w))"
proof (induction accounts arbitrary: acc w)
  case Nil
  then show ?case by simp
next
  case (Cons account rest)
  show ?case
  proof (cases "py_get account ''accountId'' PNone")
    case (Inl e)
    with Cons.prems show ?thesis by simp
  next
    case (Inr account_id)
    show ?thesis
    proof (cases "py_truthy account_id")
      case False
      with Inr Cons.IH [OF Cons.prems] show ?thesis by simp
    next
      case True
      obtain r w1 where call: "get_account_balances E account_id ''127.0.0.1'' w = (r, w1)"
        by (cases "get_account_balances E account_id ''127.0.0.1'' w")
      with get_account_balances_fresh [OF Cons.prems, of account_id "''127.0.0.1''"]
      have "ids_fresh E w1" by simp
      from Cons.IH [OF this] Inr True call show ?thesis
        by (simp split: sum.splits)
    qed
  qed
qed

lemma get_accounts_with_balances_fresh:
  assumes "ids_fresh E w"
  shows "ids_fresh E (snd (get_accounts_with_balances E skip limit w))"
proof -
  obtain r w1 where call: "get_accounts_new E skip None limit None ''desc'' w = (r, w1)"
    by (cases "get_accounts_new E skip None limit None ''desc'' w")
  with get_accounts_new_fresh [OF assms, of skip None limit None "''desc''"]
  have w1: "ids_fresh E w1" by simp
  have loop: "ids_fresh E w2" if "enrich_loop E accounts [] w1 = (r2, w2)" for accounts r2 w2
    using enrich_loop_fresh [OF w1, of accounts "[]"] that by simp
  show ?thesis
    using w1 by (auto simp: get_accounts_with_balances_def call split: sum.splits prod.splits dest: loop)
qed

lemma verify_account_fresh:
  assumes "ids_fresh E w"
  shows "ids_fresh E (snd (verify_account E account_id w))"
proof -
  obtain r w1 where call: "get_accounts_new E 0 None 50 None ''desc'' w = (r, w1)"
    by (cases "get_accounts_new E 0 None 50 None ''desc'' w")
  with get_accounts_new_fresh [OF assms, of 0 None 50 None "''desc''"]
  have "ids_fresh E w1" by simp
  then show ?thesis
    by (simp add: verify_account_def call split: sum.splits prod.splits)
qed

lemma rates_dict_fresh:
  assumes "ids_fresh E w"
  shows "ids_fresh E (snd (rates_dict E account_id cur fx_response w))"
proof (rule ids_fresh_mono [OF assms])
  show "sent (snd (rates_dict E account_id cur fx_response w)) = sent w"
    by (simp add: rates_dict_def utcnow_def split_def Let_def split: sum.splits)
  show "uuids_drawn w \<le> uuids_drawn (snd (rates_dict E account_id cur fx_response w))"
    by (simp add: rates_dict_def utcnow_def split_def Let_def split: sum.splits)
qed

lemma rates_verified_fresh:
  assumes "ids_fresh E w"
  shows "ids_fresh E (snd (rates_verified E account_id w))"
proof -
  obtain r w1 where v: "verify_account E account_id w = (r, w1)"
    by (cases "verify_account E account_id w")
  with verify_account_fresh [OF assms, of account_id] have w1: "ids_fresh E w1" by simp
  obtain r2 w2 where f: "get_fx_rates E w1 = (r2, w2)"
    by (cases "get_fx_rates E w1")
  with get_fx_rates_fresh [OF w1] have w2: "ids_fresh E w2" by simp
  show ?thesis
    using w1 w2 rates_dict_fresh [OF w2]
    by (simp add: rates_verified_def v f split: sum.splits)
qed

lemma rates_unverified_fresh:
  assumes "ids_fresh E w"
  shows "ids_fresh E (snd (rates_unverified E account_id w))"
proof -
  obtain r w1 where f: "get_fx_rates E w = (r, w1)"
    by (cases "get_fx_rates E w")
  with get_fx_rates_fresh [OF assms] have w1: "ids_fresh E w1" by simp
  have d: "ids_fresh E w2"
    if "rates_dict E account_id (PStr ''JOD'') fx_response w1 = (r2, w2)" for fx_response r2 w2
    using rates_dict_fresh [OF w1, of account_id "PStr ''JOD''" fx_response] that by simp
  show ?thesis
    using w1
    by (auto simp: rates_unverified_def f split: sum.splits prod.splits dest: d)
qed

lemma get_fx_rates_for_account_fresh:
  assumes "ids_fresh E w"
  shows "ids_fresh E (snd (get_fx_rates_for_account E account_id w))"
proof -
  obtain r w1 where v: "rates_verified E account_id w = (r, w1)"
    by (cases "rates_verified E account_id w")
  with rates_verified_fresh [OF assms, of account_id] have w1: "ids_fresh E w1" by simp
  show ?thesis
    using w1 rates_unverified_fresh [OF w1, of account_id]
    by (simp add: get_fx_rates_for_account_def v split: sum.splits)
qed

lemma quote_verified_fresh:
  assumes "ids_fresh E w"
  shows "ids_fresh E (snd (quote_verified E account_id tc amount w))"
proof -
  obtain r w1 where v: "verify_account E account_id w = (r, w1)"
    by (cases "verify_account E account_id w")
  with verify_account_fresh [OF assms, of account_id] have w1: "ids_fresh E w1" by simp
  obtain r2 w2 where f: "get_fx_quote E tc amount w1 = (r2, w2)"
    by (cases "get_fx_quote E tc amount w1")
  with get_fx_quote_fresh [OF w1, of tc amount] have w2: "ids_fresh E w2" by simp
  show ?thesis
    using w1 w2 by (simp add: quote_verified_def v f split: sum.splits)
qed

lemma quote_unverified_fresh:
  assumes "ids_fresh E w"
  shows "ids_fresh E (snd (quote_unverified E account_id tc amount w))"
proof -
  obtain r w1 where f: "get_fx_quote E tc amount w = (r, w1)"
    by (cases "get_fx_quote E tc amount w")
  with get_fx_quote_fresh [OF assms, of tc amount] have "ids_fresh E w1" by simp
  then show ?thesis
    by (simp add: quote_unverified_def f split: sum.splits)
qed

lemma get_fx_quote_for_account_fresh:
  assumes "ids_fresh E w"
  shows "ids_fresh E (snd (get_fx_quote_for_account E account_id tc amount w))"
proof -
  obtain r w1 where v: "quote_verified E account_id tc amount w = (r, w1)"
    by (cases "quote_verified E account_id tc amount w")
  with quote_verified_fresh [OF assms, of account_id tc amount] have w1: "ids_fresh E w1"
    by simp
  show ?thesis
    using w1 quote_unverified_fresh [OF w1, of account_id tc amount]
    by (simp add: get_fx_quote_for_account_def v split: sum.splits)
qed

lemma after_call_fresh: "ids_fresh E w \<Longrightarrow> ids_fresh E (after_call E c w)"
  by (cases c)
    (simp_all add: get_accounts_new_fresh get_account_balances_fresh
      get_accounts_with_balances_fresh get_fx_rates_fresh get_fx_quote_fresh
      get_fx_rates_for_account_fresh get_fx_quote_for_account_fresh)

lemma after_calls_fresh: "ids_fresh E w \<Longrightarrow> ids_fresh E (fold (after_call E) calls w)"
  by (induction calls arbitrary: w) (simp_all add: after_call_fresh)

section \<open>Quotes\<close>

lemma quote_dict_fields:
  "map fst (fst (quote_dict E b t r a c w)) = quote_keys"
  "map_of (fst (quote_dict E b t r a c w)) ''baseCurrency'' = Some b"
  "map_of (fst (quote_dict E b t r a c w)) ''targetCurrency'' = Some t"
  "map_of (fst (quote_dict E b t r a c w)) ''rate'' = Some r"
  "map_of (fst (quote_dict E b t r a c w)) ''amount'' = Some (amount_value a)"
  "map_of (fst (quote_dict E b t r a c w)) ''convertedAmount'' = Some c"
  by (simp_all add: quote_dict_def quote_keys_def split_def Let_def)

lemma built_quoteI:
  "converted_amount amount r = Inr c \<Longrightarrow> built_quote E amount (fst (quote_dict E b t r amount c w))"
  unfolding built_quote_def by blast

lemma quote_of_rate_built:
  "fst (quote_of_rate E d target amount w) = Inr q \<Longrightarrow> built_quote E amount q"
  unfolding quote_of_rate_def
  by (auto split: sum.splits intro: built_quoteI)

lemma match_loop_dicts:
  "match_loop E (map PDict rates) tc amount w =
     (case find (\<lambda>d. dict_get d ''targetCurrency'' PNone = PStr tc) rates of
        None \<Rightarrow> (None, w)
      | Some d \<Rightarrow> (Some (fst (quote_of_rate E d (PStr tc) amount w)),
                   snd (quote_of_rate E d (PStr tc) amount w)))"
proof (induction rates)
  case Nil
  show ?case by simp
next
  case (Cons d rates)
  show ?case
  proof (cases "dict_get d ''targetCurrency'' PNone = PStr tc")
    case True
    then show ?thesis
      by (simp add: quote_of_rate_def split_def Let_def split: sum.splits)
  next
    case False
    with Cons.IH show ?thesis by simp
  qed
qed

lemma first_rate_quote_dicts:
  "first_rate_quote E (PList (PDict d # rest)) tc amount w =
     quote_of_rate E d (dict_get d ''targetCurrency'' (PStr tc)) amount w"
  by (simp add: first_rate_quote_def quote_of_rate_def split_def Let_def split: sum.splits)

lemma dict_get_exact:
  "dict_get d k PNone = PStr s \<Longrightarrow> dict_get d k (PStr s) = PStr s"
  by (auto simp: dict_get_def split: option.splits)

lemma quote_from_fx_data_selected:
  assumes "map_of fx ''data'' = Some (PList (map PDict rates))" and "rates \<noteq> []"
  shows "quote_from_fx_data E (PDict fx) tc amount w =
           quote_of_rate E (selected_rate rates tc)
             (dict_get (selected_rate rates tc) ''targetCurrency'' (PStr tc)) amount w"
proof (cases "find (\<lambda>d. dict_get d ''targetCurrency'' PNone = PStr tc) rates")
  case None
  from assms(2) obtain d rest where rates: "rates = d # rest" by (cases rates) auto
  from None rates have sel: "selected_rate rates tc = d"
    by (simp add: selected_rate_def)
  from None have "match_loop E (map PDict rates) tc amount w = (None, w)"
    by (simp add: match_loop_dicts)
  with assms(1) rates have "quote_from_fx_data E (PDict fx) tc amount w =
      first_rate_quote E (PList (PDict d # map PDict rest)) tc amount w"
    by (simp add: quote_from_fx_data_def)
  with sel show ?thesis by (simp add: first_rate_quote_dicts)
next
  case (Some d)
  then have sel: "selected_rate rates tc = d"
    by (simp add: selected_rate_def)
  from Some have "dict_get d ''targetCurrency'' PNone = PStr tc"
    by (auto simp: find_Some_iff)
  then have target: "dict_get d ''targetCurrency'' (PStr tc) = PStr tc"
    by (rule dict_get_exact)
  from Some have "match_loop E (map PDict rates) tc amount w =
      (Some (fst (quote_of_rate E d (PStr tc) amount w)),
       snd (quote_of_rate E d (PStr tc) amount w))"
    by (simp add: match_loop_dicts)
  with assms have "quote_from_fx_data E (PDict fx) tc amount w =
      quote_of_rate E d (PStr tc) amount w"
    by (simp add: quote_from_fx_data_def)
  with sel target show ?thesis by simp
qed

text \<open>What \<open>get_fx_quote\<close> returns when the partner serves a list of rates.\<close>

lemma get_fx_quote_answer:
  assumes "fx_quote_call_answers E (Inr r)" and "status_code r = 200"
    and "json r = Some (PDict fx)"
    and "map_of fx ''data'' = Some (PList (map PDict rates))" and "rates \<noteq> []"
  shows "get_fx_quote E tc amount w =
           quote_of_rate E (selected_rate rates tc)
             (dict_get (selected_rate rates tc) ''targetCurrency'' (PStr tc)) amount
             ((snd (get_fx_quote_request E w))\<lparr>sent := sent w @ [fst (get_fx_quote_request E w)]\<rparr>)"
proof -
  have "fst (get_fx_quote_request E w) =
          \<lparr>url = Url fx_quote_url, headers = fst (get_fx_quote_headers E w), params = []\<rparr>"
    by (simp add: get_fx_quote_request_def split_def Let_def)
  with assms(1) have "partner E (length (sent w)) (fst (get_fx_quote_request E w)) = Inr r"
    by (simp add: fx_quote_call_answers_def)
  with assms(2,3) have "get_fx_quote E tc amount w =
      quote_from_fx_data E (PDict fx) tc amount
        ((snd (get_fx_quote_request E w))\<lparr>sent := sent w @ [fst (get_fx_quote_request E w)]\<rparr>)"
    by (simp add: get_fx_quote_def http_get_def split_def Let_def get_fx_quote_request_world)
  with quote_from_fx_data_selected [OF assms(4,5)] show ?thesis by simp
qed

lemma quote_of_rate_reports:
  assumes "converted_amount amount (dict_get d ''conversionValue'' (PFloat 1)) = Inr c"
  shows "\<exists>q. fst (quote_of_rate E d (dict_get d ''targetCurrency'' (PStr tc)) amount w) = Inr q
             \<and> quote_reports q d tc
             \<and> map_of q ''convertedAmount'' = Some c
             \<and> map_of q ''amount'' = Some (amount_value amount)
             \<and> map fst q = quote_keys"
  using assms by (simp add: quote_of_rate_def quote_reports_def quote_dict_fields)

text \<open>Whatever the partner serves, a quote that \<open>get_fx_quote\<close> returns was built as above.\<close>

lemma match_loop_built:
  "match_loop E rates tc amount w = (Some (Inr q), w') \<Longrightarrow> built_quote E amount q"
proof (induction rates)
  case Nil
  then show ?case by simp
next
  case (Cons fx_rate rates)
  show ?case
  proof (cases fx_rate)
    case (PDict d)
    show ?thesis
    proof (cases "dict_get d ''targetCurrency'' PNone = PStr tc")
      case True
      with PDict Cons.prems show ?thesis
        by (auto simp: split_def Let_def split: sum.splits intro: built_quoteI)
    next
      case False
      with PDict Cons show ?thesis by simp
    qed
  qed (use Cons.prems in simp_all)
qed

lemma first_rate_quote_built:
  "first_rate_quote E data tc amount w = (Inr q, w') \<Longrightarrow> built_quote E amount q"
  unfolding first_rate_quote_def
  by (auto simp: split_def Let_def split: pyval.splits list.splits sum.splits
      intro: built_quoteI)

lemma quote_from_fx_data_built:
  assumes "quote_from_fx_data E fx_data tc amount w = (Inr q, w')"
  shows "built_quote E amount q"
proof -
  have loop: "built_quote E amount q"
    if "(case match_loop E rates tc amount w of
           (Some r, w1) \<Rightarrow> (r, w1)
         | (None, w1) \<Rightarrow>
             if py_truthy data then first_rate_quote E data tc amount w1
             else (Inl (Exception ''JoPACC FX API returned no data''), w1)) = (Inr q, w')"
    for rates data
  proof -
    obtain r w1 where m: "match_loop E rates tc amount w = (r, w1)"
      by (cases "match_loop E rates tc amount w")
    show ?thesis
    proof (cases r)
      case None
      with m that have "first_rate_quote E data tc amount w1 = (Inr q, w')"
        by (simp split: if_splits)
      then show ?thesis by (rule first_rate_quote_built)
    next
      case (Some x)
      with m that have "match_loop E rates tc amount w = (Some (Inr q), w')" by simp
      then show ?thesis by (rule match_loop_built)
    qed
  qed
  from assms show ?thesis
    unfolding quote_from_fx_data_def
    by (auto split: sum.splits bool.splits if_splits dest: loop)
qed

lemma get_fx_quote_built:
  assumes "fst (get_fx_quote E tc amount w) = Inr q"
  shows "built_quote E amount q"
proof -
  obtain r w' where g: "get_fx_quote E tc amount w = (r, w')"
    by (cases "get_fx_quote E tc amount w")
  with assms have r: "r = Inr q" by simp
  from g [unfolded r] show ?thesis
    unfolding get_fx_quote_def http_get_def
    by (auto simp: split_def Let_def split: sum.splits if_splits option.splits
        dest: quote_from_fx_data_built)
qed

lemma built_quote_fields:
  assumes "built_quote E amount q"
  shows "map fst q = quote_keys"
    and "\<exists>r c. converted_amount amount r = Inr c \<and> map_of q ''rate'' = Some r
               \<and> map_of q ''convertedAmount'' = Some c"
  using assms unfolding built_quote_def
  by (auto simp: quote_dict_fields)

section \<open>Quotes and rates for an account\<close>

lemma map_of_dict_merge_other:
  "k \<notin> fst ` set items \<Longrightarrow> map_of (dict_merge base items) k = map_of base k"
  unfolding dict_merge_def
  by (induction items arbitrary: base) (auto simp: update_conv')

lemma map_of_dict_merge_item:
  "distinct (map fst items) \<Longrightarrow> (k, v) \<in> set items \<Longrightarrow>
   map_of (dict_merge base items) k = Some v"
proof (induction items arbitrary: base)
  case Nil
  then show ?case by simp
next
  case (Cons x xs)
  show ?case
  proof (cases "(k, v) = x")
    case True
    from Cons.prems(1) True [symmetric] have "k \<notin> fst ` set xs" by simp
    from map_of_dict_merge_other [OF this, of "AList.update (fst x) (snd x) base"] True
    show ?thesis by (auto simp: dict_merge_def update_conv')
  next
    case False
    with Cons.prems have "distinct (map fst xs)" "(k, v) \<in> set xs" by auto
    from Cons.IH [OF this, of "AList.update (fst x) (snd x) base"]
    show ?thesis by (simp add: dict_merge_def)
  qed
qed

lemma quote_verified_eq:
  "quote_verified E account_id tc amount w =
     (case verify_account E account_id w of
        (Inl e, w1) \<Rightarrow> (Inl e, w1)
      | (Inr cur, w1) \<Rightarrow>
          (case get_fx_quote E tc amount w1 of
             (Inl e, w2) \<Rightarrow> (Inl e, w2)
           | (Inr q, w2) \<Rightarrow> (Inr (verified_quote account_id cur tc amount q), w2)))"
  by (simp add: quote_verified_def verified_quote_def split: prod.splits sum.splits)

lemma quote_unverified_eq:
  "quote_unverified E account_id tc amount w =
     (case get_fx_quote E tc amount w of
        (Inl e, w1) \<Rightarrow> (Inl e, w1)
      | (Inr q, w1) \<Rightarrow> (Inr (degraded_quote account_id q), w1))"
  by (simp add: quote_unverified_def degraded_quote_def split: prod.splits sum.splits)

text \<open>Every result of \<open>get_fx_quote_for_account\<close> wraps a quote of \<open>get_fx_quote\<close>.\<close>

lemma get_fx_quote_for_account_cases:
  assumes "fst (get_fx_quote_for_account E account_id tc amount w) = Inr res"
  shows "\<exists>q. built_quote E amount q \<and>
           ((\<exists>cur. res = verified_quote account_id cur tc amount q)
            \<or> res = degraded_quote account_id q)"
proof -
  have unverified: "\<exists>q. built_quote E amount q \<and> res = degraded_quote account_id q"
    if "fst (quote_unverified E account_id tc amount w1) = Inr res" for w1
  proof -
    obtain r w2 where g: "get_fx_quote E tc amount w1 = (r, w2)"
      by (cases "get_fx_quote E tc amount w1")
    with that obtain q where q: "r = Inr q" "res = degraded_quote account_id q"
      by (auto simp: quote_unverified_eq split: sum.splits)
    with g have "fst (get_fx_quote E tc amount w1) = Inr q" by simp
    then have "built_quote E amount q" by (rule get_fx_quote_built)
    with q show ?thesis by blast
  qed
  obtain r w1 where v: "quote_verified E account_id tc amount w = (r, w1)"
    by (cases "quote_verified E account_id tc amount w")
  show ?thesis
  proof (cases r)
    case (Inl e)
    with v assms have "fst (quote_unverified E account_id tc amount w1) = Inr res"
      by (simp add: get_fx_quote_for_account_def)
    from unverified [OF this] show ?thesis by blast
  next
    case (Inr result)
    with v assms have res: "result = res"
      by (simp add: get_fx_quote_for_account_def)
    obtain r1 wv where va: "verify_account E account_id w = (r1, wv)"
      by (cases "verify_account E account_id w")
    obtain r2 wq where g: "get_fx_quote E tc amount wv = (r2, wq)"
      by (cases "get_fx_quote E tc amount wv")
    from v Inr res va g obtain cur q where
      "r2 = Inr q" "res = verified_quote account_id cur tc amount q"
      by (auto simp: quote_verified_eq split: sum.splits)
    moreover from this g have "fst (get_fx_quote E tc amount wv) = Inr q" by simp
    then have "built_quote E amount q" by (rule get_fx_quote_built)
    ultimately show ?thesis by blast
  qed
qed

lemma verified_quote_fields:
  "map_of (verified_quote account_id cur tc amount q) ''quote_data'' = Some (PDict q)"
  "map_of (verified_quote account_id cur tc amount q) ''account_currency'' = Some cur"
  "map_of (verified_quote account_id cur tc amount q) ''target_currency'' = Some (PStr tc)"
  "map_of (verified_quote account_id cur tc amount q) ''rate'' = Some (dict_get q ''rate'' (PFloat 1))"
  "map_of (verified_quote account_id cur tc amount q) ''converted_amount'' =
     Some (dict_get q ''convertedAmount'' PNone)"
  "map_of (verified_quote account_id cur tc amount q) ''warning'' = None"
  "map_of (verified_quote account_id cur tc amount q) ''degraded'' = None"
  by (simp_all add: verified_quote_def)

lemma degraded_quote_fields:
  assumes "map fst q = quote_keys"
  shows "map_of (degraded_quote account_id q) ''quote_data'' = Some (PDict q)"
    and "map_of (degraded_quote account_id q) ''account_currency'' = Some (PStr ''JOD'')"
    and "map_of (degraded_quote account_id q) ''warning'' = Some (PStr quote_warning)"
    and "map_of (degraded_quote account_id q) ''degraded'' = None"
    and "map_of (degraded_quote account_id q) ''convertedAmount'' = map_of q ''convertedAmount''"
    and "map_of (degraded_quote account_id q) ''targetCurrency'' = map_of q ''targetCurrency''"
    and "map_of (degraded_quote account_id q) ''rate'' = map_of q ''rate''"
proof -
  have keys: "fst ` set q = set quote_keys"
    using assms by (metis set_map)
  have dist: "distinct (map fst q)"
    using assms by (simp add: quote_keys_def)
  have other: "map_of (degraded_quote account_id q) k =
      map_of [(''account_id'', PStr account_id), (''account_currency'', PStr ''JOD''),
              (''quote_data'', PDict q)] k"
    if "k \<notin> set quote_keys" "k \<noteq> ''warning''" for k
    using that keys by (simp add: degraded_quote_def update_conv' map_of_dict_merge_other)
  have item: "map_of (degraded_quote account_id q) k = map_of q k"
    if "k \<in> set quote_keys" "k \<noteq> ''warning''" for k
  proof -
    from that(1) keys obtain v where "(k, v) \<in> set q" by force
    with dist have "map_of q k = Some v" by simp
    moreover from map_of_dict_merge_item [OF dist \<open>(k, v) \<in> set q\<close>] that(2)
    have "map_of (degraded_quote account_id q) k = Some v"
      by (simp add: degraded_quote_def update_conv')
    ultimately show ?thesis by simp
  qed
  show "map_of (degraded_quote account_id q) ''quote_data'' = Some (PDict q)"
    by (simp add: other quote_keys_def)
  show "map_of (degraded_quote account_id q) ''account_currency'' = Some (PStr ''JOD'')"
    by (simp add: other quote_keys_def)
  show "map_of (degraded_quote account_id q) ''warning'' = Some (PStr quote_warning)"
    by (simp add: degraded_quote_def update_conv')
  show "map_of (degraded_quote account_id q) ''degraded'' = None"
    by (simp add: other quote_keys_def)
  show "map_of (degraded_quote account_id q) ''convertedAmount'' = map_of q ''convertedAmount''"
    by (simp add: item quote_keys_def)
  show "map_of (degraded_quote account_id q) ''targetCurrency'' = map_of q ''targetCurrency''"
    by (simp add: item quote_keys_def)
  show "map_of (degraded_quote account_id q) ''rate'' = map_of q ''rate''"
    by (simp add: item quote_keys_def)
qed

lemma get_fx_quote_reports:
  assumes "fx_quote_call_answers E (Inr r)" and "status_code r = 200"
    and "json r = Some (PDict fx)"
    and "map_of fx ''data'' = Some (PList (map PDict rates))" and "rates \<noteq> []"
    and "converted_amount amount (dict_get (selected_rate rates tc) ''conversionValue'' (PFloat 1))
           = Inr c"
  shows "\<exists>q. fst (get_fx_quote E tc amount w) = Inr q
             \<and> quote_reports q (selected_rate rates tc) tc
             \<and> map_of q ''convertedAmount'' = Some c
             \<and> map_of q ''amount'' = Some (amount_value amount)
             \<and> map fst q = quote_keys"
  using quote_of_rate_reports [OF assms(6)]
  by (simp add: get_fx_quote_answer [OF assms(1-5)])

text \<open>
  When \<open>get_fx_quote\<close> returns at every world a quote with the property \<open>P\<close>, so does
  \<open>get_fx_quote_for_account\<close>, in its \<open>quote_data\<close> entry, on either path.
\<close>

lemma get_fx_quote_for_account_total:
  assumes "\<And>w. \<exists>q. fst (get_fx_quote E tc amount w) = Inr q \<and> P q \<and> map fst q = quote_keys"
  shows "\<exists>res q. fst (get_fx_quote_for_account E account_id tc amount w) = Inr res
                \<and> map_of res ''quote_data'' = Some (PDict q) \<and> P q"
proof -
  have unverified: "\<exists>res q. fst (quote_unverified E account_id tc amount w1) = Inr res
                \<and> map_of res ''quote_data'' = Some (PDict q) \<and> P q" for w1
  proof -
    from assms [of w1] obtain q where
      q: "fst (get_fx_quote E tc amount w1) = Inr q" "P q" "map fst q = quote_keys"
      by blast
    obtain r2 w2 where g: "get_fx_quote E tc amount w1 = (r2, w2)"
      by (cases "get_fx_quote E tc amount w1")
    with q(1) have "r2 = Inr q" by simp
    with g have "fst (quote_unverified E account_id tc amount w1) =
        Inr (degraded_quote account_id q)"
      by (simp add: quote_unverified_eq)
    with q(2) degraded_quote_fields(1) [OF q(3)] show ?thesis by blast
  qed
  obtain r w1 where v: "quote_verified E account_id tc amount w = (r, w1)"
    by (cases "quote_verified E account_id tc amount w")
  show ?thesis
  proof (cases r)
    case (Inl e)
    with v have "get_fx_quote_for_account E account_id tc amount w =
        quote_unverified E account_id tc amount w1"
      by (simp add: get_fx_quote_for_account_def)
    with unverified [of w1] show ?thesis by simp
  next
    case (Inr result)
    obtain r1 wv where va: "verify_account E account_id w = (r1, wv)"
      by (cases "verify_account E account_id w")
    from assms [of wv] obtain q where
      q: "fst (get_fx_quote E tc amount wv) = Inr q" "P q"
      by blast
    with v Inr va obtain cur where "result = verified_quote account_id cur tc amount q"
      by (auto simp: quote_verified_eq split: sum.splits prod.splits)
    with v Inr have "fst (get_fx_quote_for_account E account_id tc amount w) =
        Inr (verified_quote account_id cur tc amount q)"
      by (simp add: get_fx_quote_for_account_def)
    with q(2) verified_quote_fields(1) [of account_id cur tc amount q] show ?thesis
      by blast
  qed
qed

lemma find_account_dicts:
  "find_account (map PDict ds) account_id =
     Inr (case find (\<lambda>d. dict_get d ''accountId'' PNone = PStr account_id) ds of
            None \<Rightarrow> (False, PStr ''JOD'')
          | Some d \<Rightarrow> (True, dict_get d ''currency'' (PStr ''JOD'')))"
  by (induction ds) simp_all

lemma verify_account_fst:
  assumes "fst (get_accounts_new E 0 None 50 None ''desc'' w) = Inr (PDict resp)"
    and "dict_get resp ''accounts'' (PList []) = PList (map PDict ds)"
  shows "fst (verify_account E account_id w) =
           (case find (\<lambda>d. dict_get d ''accountId'' PNone = PStr account_id) ds of
              None \<Rightarrow> Inl (ValueError (''Account '' @ account_id @ '' not found''))
            | Some d \<Rightarrow> Inr (dict_get d ''currency'' (PStr ''JOD'')))"
proof -
  obtain r w1 where call: "get_accounts_new E 0 None 50 None ''desc'' w = (r, w1)"
    by (cases "get_accounts_new E 0 None 50 None ''desc'' w")
  with assms(1) have "r = Inr (PDict resp)" by simp
  with call assms(2) show ?thesis
    by (simp add: verify_account_def find_account_dicts split: option.splits)
qed

lemma verify_account_fails:
  assumes "fst (get_accounts_new E 0 None 50 None ''desc'' w) = Inl e"
  shows "fst (verify_account E account_id w) = Inl e"
proof -
  obtain r w1 where call: "get_accounts_new E 0 None 50 None ''desc'' w = (r, w1)"
    by (cases "get_accounts_new E 0 None 50 None ''desc'' w")
  with assms have "r = Inl e" by simp
  with call show ?thesis by (simp add: verify_account_def)
qed

lemma rates_dict_dict:
  "fst (rates_dict E account_id cur (PDict fx) w) =
     Inr [(''account_id'', PStr account_id),
          (''account_currency'', cur),
          (''fx_data'', PDict fx),
          (''rates_for_account'', dict_get fx ''rates'' (PList [])),
          (''last_updated'',
           dict_get fx ''lastUpdated'' (PStr (isoformat E (clock E (clock_reads w)) @ ''Z'')))]"
  by (simp add: rates_dict_def utcnow_def split_def Let_def)

lemma rates_for_account_verified:
  assumes "fst (verify_account E account_id w) = Inr cur"
    and "fst (get_fx_rates E (snd (verify_account E account_id w))) = Inr (PDict fx)"
  shows "\<exists>res. fst (get_fx_rates_for_account E account_id w) = Inr res
              \<and> map fst res = [''account_id'', ''account_currency'', ''fx_data'',
                               ''rates_for_account'', ''last_updated'']
              \<and> map_of res ''account_currency'' = Some cur
              \<and> map_of res ''degraded'' = None"
proof -
  obtain r1 w1 where v: "verify_account E account_id w = (r1, w1)"
    by (cases "verify_account E account_id w")
  obtain r2 w2 where f: "get_fx_rates E w1 = (r2, w2)"
    by (cases "get_fx_rates E w1")
  obtain r3 w3 where d: "rates_dict E account_id cur (PDict fx) w2 = (r3, w3)"
    by (cases "rates_dict E account_id cur (PDict fx) w2")
  from assms v f have r: "r1 = Inr cur" "r2 = Inr (PDict fx)" by simp_all
  let ?res = "[(''account_id'', PStr account_id),
          (''account_currency'', cur),
          (''fx_data'', PDict fx),
          (''rates_for_account'', dict_get fx ''rates'' (PList [])),
          (''last_updated'',
           dict_get fx ''lastUpdated'' (PStr (isoformat E (clock E (clock_reads w2)) @ ''Z'')))]"
  from d rates_dict_dict [of E account_id cur fx w2] have "r3 = Inr ?res" by simp
  with v f d r have "fst (get_fx_rates_for_account E account_id w) = Inr ?res"
    by (simp add: get_fx_rates_for_account_def rates_verified_def)
  moreover have "map fst ?res = [''account_id'', ''account_currency'', ''fx_data'',
                               ''rates_for_account'', ''last_updated'']"
    by simp
  moreover have "map_of ?res ''account_currency'' = Some cur" by simp
  moreover have "map_of ?res ''degraded'' = None" by simp
  ultimately show ?thesis by (intro exI [of _ ?res] conjI)
qed

lemma rates_for_account_unverified:
  assumes "fst (verify_account E account_id w) = Inl e"
    and "fst (get_fx_rates E (snd (verify_account E account_id w))) = Inr (PDict fx)"
  shows "\<exists>res. fst (get_fx_rates_for_account E account_id w) = Inr res
              \<and> map fst res = [''account_id'', ''account_currency'', ''fx_data'',
                               ''rates_for_account'', ''last_updated'', ''warning'']
              \<and> map_of res ''account_currency'' = Some (PStr ''JOD'')
              \<and> map_of res ''warning'' = Some (PStr rates_warning)
              \<and> map_of res ''degraded'' = None"
proof -
  obtain r1 w1 where v: "verify_account E account_id w = (r1, w1)"
    by (cases "verify_account E account_id w")
  obtain r2 w2 where f: "get_fx_rates E w1 = (r2, w2)"
    by (cases "get_fx_rates E w1")
  obtain r3 w3 where d: "rates_dict E account_id (PStr ''JOD'') (PDict fx) w2 = (r3, w3)"
    by (cases "rates_dict E account_id (PStr ''JOD'') (PDict fx) w2")
  from assms v f have r: "r1 = Inl e" "r2 = Inr (PDict fx)" by simp_all
  let ?res = "[(''account_id'', PStr account_id),
          (''account_currency'', PStr ''JOD''),
          (''fx_data'', PDict fx),
          (''rates_for_account'', dict_get fx ''rates'' (PList [])),
          (''last_updated'',
           dict_get fx ''lastUpdated'' (PStr (isoformat E (clock E (clock_reads w2)) @ ''Z''))),
          (''warning'', PStr rates_warning)]"
  from d rates_dict_dict [of E account_id "PStr ''JOD''" fx w2]
  have "r3 = Inr (butlast ?res)" by simp
  with v f d r have "fst (get_fx_rates_for_account E account_id w) = Inr ?res"
    by (simp add: get_fx_rates_for_account_def rates_verified_def rates_unverified_def)
  moreover have "map fst ?res = [''account_id'', ''account_currency'', ''fx_data'',
                               ''rates_for_account'', ''last_updated'', ''warning'']"
    by simp
  moreover have "map_of ?res ''account_currency'' = Some (PStr ''JOD'')" by simp
  moreover have "map_of ?res ''warning'' = Some (PStr rates_warning)" by simp
  moreover have "map_of ?res ''degraded'' = None" by simp
  ultimately show ?thesis by (intro exI [of _ ?res] conjI)
qed

lemma rates_for_account_raises:
  assumes "fst (verify_account E account_id w) = Inl e"
    and "fst (get_fx_rates E (snd (verify_account E account_id w))) = Inl e'"
  shows "fst (get_fx_rates_for_account E account_id w) = Inl e'"
proof -
  obtain r1 w1 where v: "verify_account E account_id w = (r1, w1)"
    by (cases "verify_account E account_id w")
  obtain r2 w2 where f: "get_fx_rates E w1 = (r2, w2)"
    by (cases "get_fx_rates E w1")
  from assms v f have "r1 = Inl e" "r2 = Inl e'" by simp_all
  with v f show ?thesis
    by (simp add: get_fx_rates_for_account_def rates_verified_def rates_unverified_def)
qed

lemma quote_for_account_verified:
  assumes "fst (verify_account E account_id w) = Inr cur"
    and "fst (get_fx_quote E tc amount (snd (verify_account E account_id w))) = Inr q"
  shows "fst (get_fx_quote_for_account E account_id tc amount w) =
           Inr (verified_quote account_id cur tc amount q)"
proof -
  obtain r1 w1 where v: "verify_account E account_id w = (r1, w1)"
    by (cases "verify_account E account_id w")
  obtain r2 w2 where f: "get_fx_quote E tc amount w1 = (r2, w2)"
    by (cases "get_fx_quote E tc amount w1")
  from assms v f have "r1 = Inr cur" "r2 = Inr q" by simp_all
  with v f show ?thesis
    by (simp add: get_fx_quote_for_account_def quote_verified_eq)
qed

lemma quote_for_account_unverified:
  assumes "fst (verify_account E account_id w) = Inl e"
    and "fst (get_fx_quote E tc amount (snd (verify_account E account_id w))) = Inr q"
  shows "fst (get_fx_quote_for_account E account_id tc amount w) =
           Inr (degraded_quote account_id q)"
proof -
  obtain r1 w1 where v: "verify_account E account_id w = (r1, w1)"
    by (cases "verify_account E account_id w")
  obtain r2 w2 where f: "get_fx_quote E tc amount w1 = (r2, w2)"
    by (cases "get_fx_quote E tc amount w1")
  from assms v f have "r1 = Inl e" "r2 = Inr q" by simp_all
  with v f show ?thesis
    by (simp add: get_fx_quote_for_account_def quote_verified_eq quote_unverified_eq)
qed

section \<open>The text of an error message\<close>

lemma digits_chars: "set (digits n) \<subseteq> set ''0123456789''"
proof (induction n rule: digits.induct)
  case (1 n)
  have digit: "digit_char (nat k) \<in> set ''0123456789''" if "k < 10" for k :: int
  proof -
    from that have "nat k < length ''0123456789''" by simp
    then show ?thesis unfolding digit_char_def by (rule nth_mem)
  qed
  show ?case
  proof (cases "n < 10")
    case True
    with digit [of n] show ?thesis by (subst digits.simps) simp
  next
    case False
    have "n mod 10 < 10" by simp
    from digit [OF this] 1 [OF False] False show ?thesis
      by (subst digits.simps) simp
  qed
qed

lemma digits_nonempty: "digits n \<noteq> []"
  by (subst digits.simps) simp

lemma digit_char_inj:
  assumes "digit_char a = digit_char b" and "a < 10" and "b < 10"
  shows "a = b"
proof -
  have "distinct ''0123456789''" by simp
  moreover from assms have "a < length ''0123456789''" "b < length ''0123456789''" by simp_all
  ultimately show ?thesis
    using assms(1) unfolding digit_char_def by (simp only: nth_eq_iff_index_eq)
qed

lemma digits_inj: "0 \<le> n \<Longrightarrow> 0 \<le> m \<Longrightarrow> digits n = digits m \<Longrightarrow> n = m"
proof (induction n arbitrary: m rule: digits.induct)
  case (1 n)
  show ?case
  proof (cases "n < 10")
    case small: True
    show ?thesis
    proof (cases "m < 10")
      case True
      with small "1.prems" have "digit_char (nat n) = digit_char (nat m)"
        by (simp add: digits.simps [of n] digits.simps [of m])
      moreover from small True "1.prems"(1,2) have "nat n < 10" "nat m < 10" by simp_all
      ultimately have "nat n = nat m" by (rule digit_char_inj)
      with "1.prems"(1,2) show ?thesis by simp
    next
      case False
      with small "1.prems"(3) digits_nonempty [of "m div 10"] show ?thesis
        by (simp add: digits.simps [of n] digits.simps [of m])
    qed
  next
    case big: False
    show ?thesis
    proof (cases "m < 10")
      case True
      with big "1.prems"(3) digits_nonempty [of "n div 10"] show ?thesis
        by (simp add: digits.simps [of n] digits.simps [of m])
    next
      case False
      with big "1.prems"(3) have pre: "digits (n div 10) = digits (m div 10)"
        and last: "digit_char (nat (n mod 10)) = digit_char (nat (m mod 10))"
        by (simp_all add: digits.simps [of n] digits.simps [of m])
      from "1.prems"(1,2) have "0 \<le> n div 10" "0 \<le> m div 10" by simp_all
      from "1.IH" [OF big this pre] have "n div 10 = m div 10" .
      moreover have "n mod 10 = m mod 10"
      proof -
        have "nat (n mod 10) < 10" "nat (m mod 10) < 10" by simp_all
        with last have "nat (n mod 10) = nat (m mod 10)" by (rule digit_char_inj)
        then show ?thesis by simp
      qed
      ultimately show ?thesis by (metis div_mult_mod_eq)
    qed
  qed
qed

lemma digits_not:
  assumes "c \<notin> set ''0123456789''"
  shows "c \<notin> set (digits n)"
proof
  assume "c \<in> set (digits n)"
  from this digits_chars [of n] have "c \<in> set ''0123456789''" by (rule rev_subsetD)
  with assms show False by simp
qed

lemma str_int_no_space: "CHR '' '' \<notin> set (str_int i)"
proof -
  have "CHR '' '' \<notin> set (digits n)" for n
    by (rule digits_not) simp
  then show ?thesis by (simp add: str_int_def)
qed

lemma str_int_inj: "str_int i = str_int j \<Longrightarrow> i = j"
proof -
  assume eq: "str_int i = str_int j"
  have first: "hd (digits n) \<noteq> CHR ''-''" for n
  proof
    assume "hd (digits n) = CHR ''-''"
    moreover from digits_nonempty [of n] have "hd (digits n) \<in> set (digits n)" by simp
    moreover have "CHR ''-'' \<notin> set (digits n)" by (rule digits_not) simp
    ultimately show False by simp
  qed
  consider "i < 0" "j < 0" | "0 \<le> i" "0 \<le> j" | "i < 0" "0 \<le> j" | "0 \<le> i" "j < 0"
    by linarith
  then show ?thesis
  proof cases
    case 1
    with eq have "digits (- i) = digits (- j)" by (simp add: str_int_def)
    with 1 digits_inj [of "- i" "- j"] show ?thesis by simp
  next
    case 2
    with eq have "digits i = digits j" by (simp add: str_int_def)
    with 2 digits_inj [of i j] show ?thesis by simp
  next
    case 3
    with eq have "CHR ''-'' # digits (- i) = digits j" by (simp add: str_int_def)
    then have "hd (digits j) = CHR ''-''" by (metis list.sel(1))
    with first [of j] show ?thesis by simp
  next
    case 4
    with eq have "digits i = CHR ''-'' # digits (- j)" by (simp add: str_int_def)
    then have "hd (digits i) = CHR ''-''" by simp
    with first [of i] show ?thesis by simp
  qed
qed

text \<open>
  The text \<open>f"{status_code} - {text}"\<close> determines both parts: the status code ends at the
  first space.
\<close>

lemma status_and_body_inj:
  assumes "str_int s @ '' - '' @ b = str_int s' @ '' - '' @ b'"
  shows "s = s' \<and> b = b'"
proof -
  have split: "takeWhile (\<lambda>c. c \<noteq> CHR '' '') (str_int i @ '' - '' @ t) = str_int i" for i t
  proof -
    have "c \<noteq> CHR '' ''" if "c \<in> set (str_int i)" for c
      using that str_int_no_space [of i] by auto
    then show ?thesis by (simp add: takeWhile_append2)
  qed
  from assms have "takeWhile (\<lambda>c. c \<noteq> CHR '' '') (str_int s @ '' - '' @ b) =
      takeWhile (\<lambda>c. c \<noteq> CHR '' '') (str_int s' @ '' - '' @ b')"
    by simp
  then have "str_int s = str_int s'" by (simp only: split)
  then have "s = s'" by (rule str_int_inj)
  with assms show ?thesis by simp
qed

section \<open>The account-dependent aggregation\<close>

lemma aggregation_of_listing:
  assumes "fst (get_accounts_new E skip None limit None ''desc'' w) = Inr (PDict resp)"
    and "dict_get resp ''accounts'' (PList []) = PList (map PDict ds)"
    and "enrich_loop E (map PDict ds) [] (snd (get_accounts_new E skip None limit None ''desc'' w))
           = (Inr enriched, w2)"
  shows "get_accounts_with_balances E skip limit w =
           (Inr [(''accounts'', PList enriched),
                 (''totalCount'', PInt (int (length enriched))),
                 (''hasMore'', dict_get resp ''hasMore'' (PBool False))], w2)"
proof -
  obtain r w1 where call: "get_accounts_new E skip None limit None ''desc'' w = (r, w1)"
    by (cases "get_accounts_new E skip None limit None ''desc'' w")
  with assms(1) have r: "r = Inr (PDict resp)" by simp
  from call assms(3) have loop: "enrich_loop E (map PDict ds) [] w1 = (Inr enriched, w2)"
    by simp
  show ?thesis
    unfolding get_accounts_with_balances_def call r
    using assms(2) loop by simp
qed

lemma aggregation_fails_with_listing:
  assumes "fst (get_accounts_new E skip None limit None ''desc'' w) = Inl e"
  shows "fst (get_accounts_with_balances E skip limit w) = Inl e"
proof -
  obtain r w1 where call: "get_accounts_new E skip None limit None ''desc'' w = (r, w1)"
    by (cases "get_accounts_new E skip None limit None ''desc'' w")
  with assms have "r = Inl e" by simp
  with call show ?thesis by (simp add: get_accounts_with_balances_def)
qed

text \<open>
  C1. Two-tier failure policy. When \<open>get_accounts_new\<close> raises, \<open>get_accounts_with_balances\<close>
  raises the same exception. When it returns a response whose \<open>accounts\<close> entry is a list of
  account objects (or is absent), \<open>get_accounts_with_balances\<close> returns, whatever the partner
  does with the balance calls, and its result holds one entry per listed account, in the
  order listed and with the same \<open>accountId\<close>.
\<close>

theorem two_tier_failure_policy:
  "(fst (get_accounts_new E skip None limit None ''desc'' w) = Inl e \<longrightarrow>
      fst (get_accounts_with_balances E skip limit w) = Inl e)
   \<and>
   (fst (get_accounts_new E skip None limit None ''desc'' w) = Inr (PDict resp) \<and>
    dict_get resp ''accounts'' (PList []) = PList (map PDict ds) \<longrightarrow>
      (\<exists>enriched.
         fst (get_accounts_with_balances E skip limit w) =
           Inr [(''accounts'', PList enriched),
                (''totalCount'', PInt (int (length ds))),
                (''hasMore'', dict_get resp ''hasMore'' (PBool False))]
         \<and> length enriched = length ds
         \<and> map (\<lambda>a. py_get a ''accountId'' PNone) enriched =
             map (\<lambda>d. py_get (PDict d) ''accountId'' PNone) ds))"
proof (intro conjI impI)
  assume "fst (get_accounts_new E skip None limit None ''desc'' w) = Inl e"
  then show "fst (get_accounts_with_balances E skip limit w) = Inl e"
    by (rule aggregation_fails_with_listing)
next
  assume listed: "fst (get_accounts_new E skip None limit None ''desc'' w) = Inr (PDict resp) \<and>
    dict_get resp ''accounts'' (PList []) = PList (map PDict ds)"
  from enrich_loop_total [of E ds "[]" "snd (get_accounts_new E skip None limit None ''desc'' w)"]
  obtain enriched w2 where
    loop: "enrich_loop E (map PDict ds) [] (snd (get_accounts_new E skip None limit None ''desc'' w))
             = (Inr enriched, w2)"
    and rel: "list_all2 same_but_enrichment ds enriched"
    by auto
  from rel have len: "length enriched = length ds"
    by (simp add: list_all2_lengthD)
  have ids: "map (\<lambda>a. py_get a ''accountId'' PNone) enriched =
             map (\<lambda>d. py_get (PDict d) ''accountId'' PNone) ds"
    using rel by (induction rule: list_all2_induct) (simp_all add: frame_account_id)
  from aggregation_of_listing [OF conjunct1 [OF listed] conjunct2 [OF listed] loop] len
  have "fst (get_accounts_with_balances E skip limit w) =
           Inr [(''accounts'', PList enriched),
                (''totalCount'', PInt (int (length ds))),
                (''hasMore'', dict_get resp ''hasMore'' (PBool False))]"
    by simp
  with len ids show "\<exists>enriched.
         fst (get_accounts_with_balances E skip limit w) =
           Inr [(''accounts'', PList enriched),
                (''totalCount'', PInt (int (length ds))),
                (''hasMore'', dict_get resp ''hasMore'' (PBool False))]
         \<and> length enriched = length ds
         \<and> map (\<lambda>a. py_get a ''accountId'' PNone) enriched =
             map (\<lambda>d. py_get (PDict d) ''accountId'' PNone) ds"
    by blast
qed

theorem two_tier_failure_policy_witness:
  "fst (get_accounts_with_balances (demo_env partner_accounts_down) 0 10 w0) =
     Inl (Exception ''JoPACC API Error: 503 - Service Unavailable'')
   \<and> (\<exists>enriched.
         fst (get_accounts_with_balances (demo_env (demo_partner (PStr ''acc_2''))) 0 10 w0) =
           Inr [(''accounts'', PList enriched), (''totalCount'', PInt 3), (''hasMore'', PBool False)]
         \<and> length enriched = 3)"
proof -
  have down: "fst (get_accounts_new (demo_env partner_accounts_down) 0 None 10 None ''desc'' w0)
      = Inl (Exception ''JoPACC API Error: 503 - Service Unavailable'')"
    by code_simp
  have up: "fst (get_accounts_new (demo_env (demo_partner (PStr ''acc_2''))) 0 None 10 None ''desc'' w0)
      = Inr (PDict [(''accounts'', PList (map PDict demo_accounts)), (''hasMore'', PBool False)])"
    by code_simp
  have listed: "dict_get [(''accounts'', PList (map PDict demo_accounts)), (''hasMore'', PBool False)]
      ''accounts'' (PList []) = PList (map PDict demo_accounts)"
    by (simp add: dict_get_def)
  have n: "length demo_accounts = 3" by (simp add: demo_accounts_def)
  from two_tier_failure_policy [of "demo_env partner_accounts_down" 0 10 w0
      "Exception ''JoPACC API Error: 503 - Service Unavailable''"] down
  have a: "fst (get_accounts_with_balances (demo_env partner_accounts_down) 0 10 w0) =
     Inl (Exception ''JoPACC API Error: 503 - Service Unavailable'')"
    by blast
  from two_tier_failure_policy [of "demo_env (demo_partner (PStr ''acc_2''))" 0 10 w0 _
      "[(''accounts'', PList (map PDict demo_accounts)), (''hasMore'', PBool False)]" demo_accounts]
    up listed
  obtain enriched where
    "fst (get_accounts_with_balances (demo_env (demo_partner (PStr ''acc_2''))) 0 10 w0) =
           Inr [(''accounts'', PList enriched),
                (''totalCount'', PInt (int (length demo_accounts))),
                (''hasMore'', dict_get [(''accounts'', PList (map PDict demo_accounts)), (''hasMore'', PBool False)] ''hasMore'' (PBool False))]"
    "length enriched = length demo_accounts"
    by blast
  with n have "fst (get_accounts_with_balances (demo_env (demo_partner (PStr ''acc_2''))) 0 10 w0) =
           Inr [(''accounts'', PList enriched), (''totalCount'', PInt 3), (''hasMore'', PBool False)]
         \<and> length enriched = 3"
    by (simp add: dict_get_def)
  with a show ?thesis by blast
qed

lemma returned_entry_ok:
  "status_code r = 200 \<Longrightarrow> json r = Some (PDict b) \<Longrightarrow>
   returned_entry d (Inr r) = PDict (enriched_with d b)"
  by (simp add: returned_entry_def checked_json_def account_with_balance_dicts enriched_with_def)

lemma returned_entry_http_error:
  "status_code r \<noteq> 200 \<Longrightarrow> returned_entry d (Inr r) = PDict d"
  by (simp add: returned_entry_def checked_json_def)

lemma aggregation_with_answers:
  assumes "fst (get_accounts_new E skip None limit None ''desc'' w) = Inr (PDict resp)"
    and "dict_get resp ''accounts'' (PList []) = PList (map PDict ds)"
    and "\<forall>d \<in> set ds. py_truthy (dict_get d ''accountId'' PNone) \<and>
           balance_call_answers E (dict_get d ''accountId'' PNone)
             (answer (dict_get d ''accountId'' PNone))"
  shows "fst (get_accounts_with_balances E skip limit w) =
           Inr [(''accounts'',
                 PList (map (\<lambda>d. returned_entry d (answer (dict_get d ''accountId'' PNone))) ds)),
                (''totalCount'', PInt (int (length ds))),
                (''hasMore'', dict_get resp ''hasMore'' (PBool False))]"
proof -
  let ?w1 = "snd (get_accounts_new E skip None limit None ''desc'' w)"
  from enrich_loop_answers [OF assms(3), of "[]" ?w1] obtain w2 where
    loop: "enrich_loop E (map PDict ds) [] ?w1 =
       (Inr (map (\<lambda>d. returned_entry d (answer (dict_get d ''accountId'' PNone))) ds), w2)"
    by auto
  from aggregation_of_listing [OF assms(1) assms(2) loop]
  show ?thesis by simp
qed

text \<open>
  C2, as the code has it. The accounts list succeeds; every listed account has a truthy
  \<open>accountId\<close>; the partner answers the balance call of the account \<open>bad\<close> with a status
  other than 200, and the balance call of every other listed account \<open>a\<close> with status 200 and
  the JSON object \<open>bal a\<close>. Then the aggregation returns all the accounts in order: each
  account other than \<open>bad\<close> with \<open>detailed_balances\<close> and \<open>balance_last_updated\<close> taken from
  its balance response, and the account \<open>bad\<close> exactly as the accounts list gave it, with no
  field added.
\<close>

theorem partial_failure_result:
  assumes "fst (get_accounts_new E skip None limit None ''desc'' w) = Inr (PDict resp)"
    and "dict_get resp ''accounts'' (PList []) = PList (map PDict ds)"
    and "\<forall>d \<in> set ds. py_truthy (dict_get d ''accountId'' PNone) \<and>
           balance_call_answers E (dict_get d ''accountId'' PNone)
             (Inr (answer (dict_get d ''accountId'' PNone)))"
    and "status_code (answer bad) \<noteq> 200"
    and "\<forall>d \<in> set ds. dict_get d ''accountId'' PNone \<noteq> bad \<longrightarrow>
           status_code (answer (dict_get d ''accountId'' PNone)) = 200 \<and>
           json (answer (dict_get d ''accountId'' PNone)) =
             Some (PDict (bal (dict_get d ''accountId'' PNone)))"
  shows "fst (get_accounts_with_balances E skip limit w) =
           Inr [(''accounts'',
                 PList (map (\<lambda>d. if dict_get d ''accountId'' PNone = bad then PDict d
                                   else PDict (enriched_with d (bal (dict_get d ''accountId'' PNone))))
                            ds)),
                (''totalCount'', PInt (int (length ds))),
                (''hasMore'', dict_get resp ''hasMore'' (PBool False))]"
proof -
  have entry: "returned_entry d (Inr (answer (dict_get d ''accountId'' PNone))) =
      (if dict_get d ''accountId'' PNone = bad then PDict d
       else PDict (enriched_with d (bal (dict_get d ''accountId'' PNone))))"
    if "d \<in> set ds" for d
  proof (cases "dict_get d ''accountId'' PNone = bad")
    case True
    with assms(4) show ?thesis by (simp add: returned_entry_http_error)
  next
    case False
    with assms(5) that have "status_code (answer (dict_get d ''accountId'' PNone)) = 200"
      "json (answer (dict_get d ''accountId'' PNone)) =
         Some (PDict (bal (dict_get d ''accountId'' PNone)))"
      by simp_all
    with False show ?thesis by (simp add: returned_entry_ok)
  qed
  then have "map (\<lambda>d. returned_entry d (Inr (answer (dict_get d ''accountId'' PNone)))) ds =
      map (\<lambda>d. if dict_get d ''accountId'' PNone = bad then PDict d
                else PDict (enriched_with d (bal (dict_get d ''accountId'' PNone)))) ds"
    by simp
  with aggregation_with_answers [where answer = "\<lambda>a. Inr (answer a)", OF assms(1) assms(2) assms(3)]
  show ?thesis by simp
qed

lemma demo_partner_balance_answers:
  "balance_call_answers (demo_env (demo_partner failing)) account_id
     (Inr (demo_balance_response failing account_id))"
  by (simp add: balance_call_answers_def demo_env_def demo_partner_def balances_url_def)

lemma demo_listing:
  "fst (get_accounts_new (demo_env (demo_partner failing)) skip None limit None ''desc'' w) =
     Inr (PDict [(''accounts'', PList (map PDict demo_accounts)), (''hasMore'', PBool False)])"
  by (simp add: get_accounts_new_fst demo_env_def demo_partner_def checked_json_def ok_json_def
      get_accounts_new_request_def split_def Let_def demo_accounts_response_def)

lemma demo_account_ids:
  "\<forall>d \<in> set demo_accounts. py_truthy (dict_get d ''accountId'' PNone) \<and>
     balance_call_answers (demo_env (demo_partner failing)) (dict_get d ''accountId'' PNone)
       (Inr (demo_balance_response failing (dict_get d ''accountId'' PNone)))"
  using demo_partner_balance_answers [of failing]
  by (simp add: demo_accounts_def demo_account_def dict_get_def)

text \<open>
  Scenario B: the balance call of \<open>acc_2\<close> returns HTTP 500; three accounts come back, the
  first and third enriched, the second as listed.
\<close>

theorem partial_failure_result_witness:
  "fst (get_accounts_with_balances (demo_env (demo_partner (PStr ''acc_2''))) 0 10 w0) =
     Inr [(''accounts'',
           PList [PDict (enriched_with (demo_account ''acc_1'' 100) demo_balances),
                  PDict (demo_account ''acc_2'' (401 / 2)),
                  PDict (enriched_with (demo_account ''acc_3'' (201 / 4)) demo_balances)]),
          (''totalCount'', PInt 3),
          (''hasMore'', PBool False)]"
proof -
  let ?resp = "[(''accounts'', PList (map PDict demo_accounts)), (''hasMore'', PBool False)]"
  have listed: "dict_get ?resp ''accounts'' (PList []) = PList (map PDict demo_accounts)"
    by (simp add: dict_get_def)
  have failing: "status_code (demo_balance_response (PStr ''acc_2'') (PStr ''acc_2'')) \<noteq> 200"
    by (simp add: demo_balance_response_def)
  have others: "\<forall>d \<in> set demo_accounts. dict_get d ''accountId'' PNone \<noteq> PStr ''acc_2'' \<longrightarrow>
           status_code (demo_balance_response (PStr ''acc_2'') (dict_get d ''accountId'' PNone)) = 200 \<and>
           json (demo_balance_response (PStr ''acc_2'') (dict_get d ''accountId'' PNone)) =
             Some (PDict ((\<lambda>a. demo_balances) (dict_get d ''accountId'' PNone)))"
    by (simp add: demo_balance_response_def)
  from partial_failure_result [OF demo_listing listed demo_account_ids failing others]
  show ?thesis
    by (simp add: demo_accounts_def demo_account_def dict_get_def)
qed

text \<open>
  C2 as stated fails on scenario B: the entry returned for \<open>acc_2\<close> is the listed account
  itself. It has no \<open>detailed_balances\<close> field, empty or not, and no field that flags it:
  its keys are those of the accounts list.
\<close>

theorem unenriched_account_not_flagged:
  "(\<exists>first third.
      fst (get_accounts_with_balances (demo_env (demo_partner (PStr ''acc_2''))) 0 10 w0) =
        Inr [(''accounts'', PList [first, PDict (demo_account ''acc_2'' (401 / 2)), third]),
             (''totalCount'', PInt 3),
             (''hasMore'', PBool False)])
   \<and> map_of (demo_account ''acc_2'' (401 / 2)) ''detailed_balances'' = None
   \<and> map fst (demo_account ''acc_2'' (401 / 2)) =
       [''accountId'', ''currency'', ''balance'', ''lastUpdated'']"
proof (intro conjI)
  let ?E = "demo_env (demo_partner (PStr ''acc_2''))"
  let ?resp = "[(''accounts'', PList (map PDict demo_accounts)), (''hasMore'', PBool False)]"
  have listed: "dict_get ?resp ''accounts'' (PList []) = PList (map PDict demo_accounts)"
    by (simp add: dict_get_def)
  have "fst (get_accounts_with_balances ?E 0 10 w0) =
     Inr [(''accounts'',
           PList [returned_entry (demo_account ''acc_1'' 100)
                    (Inr (demo_balance_response (PStr ''acc_2'') (PStr ''acc_1''))),
                  PDict (demo_account ''acc_2'' (401 / 2)),
                  returned_entry (demo_account ''acc_3'' (201 / 4))
                    (Inr (demo_balance_response (PStr ''acc_2'') (PStr ''acc_3'')))]),
          (''totalCount'', PInt 3),
          (''hasMore'', PBool False)]"
    using aggregation_with_answers
        [where answer = "\<lambda>a. Inr (demo_balance_response (PStr ''acc_2'') a)",
          OF demo_listing listed demo_account_ids]
    by (simp add: demo_accounts_def demo_account_def dict_get_def returned_entry_http_error
        demo_balance_response_def)
  then show "\<exists>first third.
      fst (get_accounts_with_balances ?E 0 10 w0) =
        Inr [(''accounts'', PList [first, PDict (demo_account ''acc_2'' (401 / 2)), third]),
             (''totalCount'', PInt 3),
             (''hasMore'', PBool False)]"
    by (intro exI)
  show "map_of (demo_account ''acc_2'' (401 / 2)) ''detailed_balances'' = None"
    by (simp add: demo_account_def)
  show "map fst (demo_account ''acc_2'' (401 / 2)) =
       [''accountId'', ''currency'', ''balance'', ''lastUpdated'']"
    by (simp add: demo_account_def)
qed

text \<open>
  C8. Enrichment is balance-preserving. When the accounts list succeeds, every returned
  entry is the listed account up to the two fields \<open>detailed_balances\<close> and
  \<open>balance_last_updated\<close>; so \<open>balance.current\<close> of every returned account is the one listed,
  and the sum over the returned accounts is the sum over the accounts-list response.
\<close>

theorem enrichment_preserves_balances:
  assumes "fst (get_accounts_new E skip None limit None ''desc'' w) = Inr (PDict resp)"
    and "dict_get resp ''accounts'' (PList []) = PList (map PDict ds)"
  shows "\<exists>result enriched.
           fst (get_accounts_with_balances E skip limit w) = Inr result
           \<and> map_of result ''accounts'' = Some (PList enriched)
           \<and> list_all2 same_but_enrichment ds enriched
           \<and> map balance_current enriched = map balance_current (map PDict ds)
           \<and> sum_current enriched (PInt 0) = sum_current (map PDict ds) (PInt 0)"
proof -
  from enrich_loop_total [of E ds "[]" "snd (get_accounts_new E skip None limit None ''desc'' w)"]
  obtain enriched w2 where
    loop: "enrich_loop E (map PDict ds) [] (snd (get_accounts_new E skip None limit None ''desc'' w))
             = (Inr enriched, w2)"
    and rel: "list_all2 same_but_enrichment ds enriched"
    by auto
  let ?result = "[(''accounts'', PList enriched),
                  (''totalCount'', PInt (int (length enriched))),
                  (''hasMore'', dict_get resp ''hasMore'' (PBool False))]"
  from aggregation_of_listing [OF assms loop]
  have res: "fst (get_accounts_with_balances E skip limit w) = Inr ?result"
    by simp
  have acc: "map_of ?result ''accounts'' = Some (PList enriched)"
    by simp
  have cur: "map balance_current enriched = map balance_current (map PDict ds)"
    using rel by (induction rule: list_all2_induct) (simp_all add: frame_balance_current)
  from sum_current_cong [OF cur]
  have "sum_current enriched (PInt 0) = sum_current (map PDict ds) (PInt 0)" .
  with res acc rel cur show ?thesis by blast
qed

text \<open>
  Scenario A: three accounts with current balances 100.00, 200.50 and 50.25; the returned
  accounts sum to 350.75.
\<close>

lemma demo_accounts_total:
  "sum_current (map PDict demo_accounts) (PInt 0) = Inr (PFloat (1403 / 4))"
  by code_simp

theorem enrichment_preserves_balances_witness:
  "\<exists>result enriched.
      fst (get_accounts_with_balances (demo_env (demo_partner (PStr ''acc_2''))) 0 10 w0) = Inr result
      \<and> map_of result ''accounts'' = Some (PList enriched)
      \<and> length enriched = 3
      \<and> sum_current enriched (PInt 0) = Inr (PFloat (1403 / 4))"
proof -
  let ?resp = "[(''accounts'', PList (map PDict demo_accounts)), (''hasMore'', PBool False)]"
  have listed: "dict_get ?resp ''accounts'' (PList []) = PList (map PDict demo_accounts)"
    by (simp add: dict_get_def)
  from enrichment_preserves_balances [OF demo_listing listed]
  obtain result enriched where
    "fst (get_accounts_with_balances (demo_env (demo_partner (PStr ''acc_2''))) 0 10 w0) = Inr result"
    "map_of result ''accounts'' = Some (PList enriched)"
    "list_all2 same_but_enrichment demo_accounts enriched"
    "sum_current enriched (PInt 0) = sum_current (map PDict demo_accounts) (PInt 0)"
    by blast
  moreover from this(3) have "length enriched = 3"
    by (simp add: list_all2_lengthD [symmetric] demo_accounts_def)
  ultimately show ?thesis
    by (simp add: demo_accounts_total)
qed

section \<open>Headers and errors of the fetchers\<close>

text \<open>
  C4, as the code has it. The balance call and the FX call of \<open>get_fx_quote\<close> are sent
  without an \<open>x-customer-id\<close> header; the accounts-list call and the FX-rates call of
  \<open>get_fx_rates\<close> (whose headers come from \<open>get_headers\<close>) are sent with one.
\<close>

theorem customer_id_header_by_call:
  "sent (snd (get_account_balances E account_id ip w)) =
     sent w @ [fst (get_account_balances_request E account_id ip w)]
   \<and> map_of (headers (fst (get_account_balances_request E account_id ip w))) ''x-customer-id''
       = None
   \<and> sent (snd (get_fx_quote E target_currency amount w)) =
       sent w @ [fst (get_fx_quote_request E w)]
   \<and> map_of (headers (fst (get_fx_quote_request E w))) ''x-customer-id'' = None
   \<and> sent (snd (get_accounts_new E sk ty li st so w)) =
       sent w @ [fst (get_accounts_new_request E sk ty li st so w)]
   \<and> map_of (headers (fst (get_accounts_new_request E sk ty li st so w))) ''x-customer-id''
       = Some (os_getenv E ''JOPACC_CUSTOMER_ID'' ''customer_123'')
   \<and> sent (snd (get_fx_rates E w)) = sent w @ [fst (get_fx_rates_request E w)]
   \<and> map_of (headers (fst (get_fx_rates_request E w))) ''x-customer-id''
       = Some (os_getenv E ''JOPACC_CUSTOMER_ID'' ''customer_123'')"
proof (intro conjI)
  show "sent (snd (get_account_balances E account_id ip w)) =
     sent w @ [fst (get_account_balances_request E account_id ip w)]"
    by (simp add: get_account_balances_snd)
  show "map_of (headers (fst (get_account_balances_request E account_id ip w))) ''x-customer-id''
       = None"
    by (simp add: get_account_balances_request_def get_account_balances_headers_def
        split_def Let_def)
  show "sent (snd (get_fx_quote E target_currency amount w)) =
       sent w @ [fst (get_fx_quote_request E w)]"
    by (rule get_fx_quote_world)
  show "map_of (headers (fst (get_fx_quote_request E w))) ''x-customer-id'' = None"
    by (simp add: get_fx_quote_request_def get_fx_quote_headers_def split_def Let_def)
  show "sent (snd (get_accounts_new E sk ty li st so w)) =
       sent w @ [fst (get_accounts_new_request E sk ty li st so w)]"
    by (simp add: get_accounts_new_snd)
  show "map_of (headers (fst (get_accounts_new_request E sk ty li st so w))) ''x-customer-id''
       = Some (os_getenv E ''JOPACC_CUSTOMER_ID'' ''customer_123'')"
    by (simp add: get_accounts_new_request_def get_accounts_new_headers_def split_def Let_def)
  show "sent (snd (get_fx_rates E w)) = sent w @ [fst (get_fx_rates_request E w)]"
    by (simp add: get_fx_rates_snd)
  show "map_of (headers (fst (get_fx_rates_request E w))) ''x-customer-id''
       = Some (os_getenv E ''JOPACC_CUSTOMER_ID'' ''customer_123'')"
    by (simp add: get_fx_rates_request_def get_headers_def split_def Let_def)
qed

text \<open>
  C4 as stated fails for the FX quote: the one request \<open>get_fx_quote\<close> sends carries five
  headers, none of them \<open>x-customer-id\<close>.
\<close>

theorem fx_quote_call_without_customer_id:
  "map (\<lambda>req. map fst (headers req))
       (sent (snd (get_fx_quote (demo_env (demo_partner PNone)) ''USD'' (Some 100) w0))) =
     [[''x-interactions-id'', ''Authorization'', ''x-financial-id'', ''x-jws-signature'',
       ''x-idempotency-key'']]
   \<and> map (\<lambda>req. map_of (headers req) ''x-customer-id'')
       (sent (snd (get_fx_quote (demo_env (demo_partner PNone)) ''USD'' (Some 100) w0))) =
     [None]"
  by (simp add: get_fx_quote_world get_fx_quote_request_def get_fx_quote_headers_def
      split_def Let_def w0_def)

text \<open>
  C5, as the code has it. When the partner answers the accounts-list call or the balance
  call with a status other than 200, the fetcher returns nothing in place of the data: it
  raises \<open>Exception\<close>, the base class, with one string, \<open>JoPACC API Error: \<close> (for balances
  \<open>JoPACC Balance API Error: \<close>) followed by the status code, \<open> - \<close> and the response text.
  The status code and the body reach the caller inside that text, and both can be read back
  from it: two answers that differ in status code or body give different texts.
\<close>

theorem no_synthetic_data_on_failure:
  "(partner E (length (sent w)) (fst (get_accounts_new_request E sk ty li st so w)) = Inr r \<and>
    status_code r \<noteq> 200 \<longrightarrow>
      fst (get_accounts_new E sk ty li st so w) =
        Inl (Exception (''JoPACC API Error: '' @ str_int (status_code r) @ '' - '' @ text_body r)))
   \<and>
   (partner E (length (sent w)) (fst (get_account_balances_request E account_id ip w)) = Inr r \<and>
    status_code r \<noteq> 200 \<longrightarrow>
      fst (get_account_balances E account_id ip w) =
        Inl (Exception (''JoPACC Balance API Error: '' @ str_int (status_code r) @ '' - ''
                        @ text_body r)))
   \<and>
   (str_int (status_code r) @ '' - '' @ text_body r =
      str_int (status_code r') @ '' - '' @ text_body r' \<longrightarrow>
      status_code r = status_code r' \<and> text_body r = text_body r')"
proof (intro conjI impI)
  assume "partner E (length (sent w)) (fst (get_accounts_new_request E sk ty li st so w)) = Inr r \<and>
    status_code r \<noteq> 200"
  then show "fst (get_accounts_new E sk ty li st so w) =
        Inl (Exception (''JoPACC API Error: '' @ str_int (status_code r) @ '' - '' @ text_body r))"
    by (simp add: get_accounts_new_fst checked_json_def)
next
  assume "partner E (length (sent w)) (fst (get_account_balances_request E account_id ip w)) = Inr r \<and>
    status_code r \<noteq> 200"
  then show "fst (get_account_balances E account_id ip w) =
        Inl (Exception (''JoPACC Balance API Error: '' @ str_int (status_code r) @ '' - ''
                        @ text_body r))"
    by (simp add: get_account_balances_fst checked_json_def)
next
  assume eq: "str_int (status_code r) @ '' - '' @ text_body r =
      str_int (status_code r') @ '' - '' @ text_body r'"
  from status_and_body_inj [OF eq] show "status_code r = status_code r'"
    and "text_body r = text_body r'"
    by simp_all
qed

lemma str_int_503: "str_int 503 = ''503''"
  by code_simp

lemma str_int_404: "str_int 404 = ''404''"
  by code_simp

theorem no_synthetic_data_on_failure_witness:
  "fst (get_accounts_new (demo_env partner_down) 0 None 10 None ''desc'' w0) =
     Inl (Exception ''JoPACC API Error: 503 - Service Unavailable'')
   \<and> fst (get_account_balances (demo_env partner_down) (PStr ''acc_1'') ''127.0.0.1'' w0) =
     Inl (Exception ''JoPACC Balance API Error: 503 - Service Unavailable'')"
proof -
  let ?E = "demo_env partner_down"
  let ?r = "\<lparr>status_code = 503, text_body = ''Service Unavailable'', json = None\<rparr>"
  have down: "\<And>n req. partner ?E n req = Inr ?r"
    by (simp add: demo_env_def partner_down_def http_error_def)
  have status: "status_code ?r \<noteq> 200" by simp
  from no_synthetic_data_on_failure
    [where E = ?E and w = w0 and sk = 0 and ty = None and li = 10 and st = None
       and so = "''desc''" and r = ?r and r' = ?r and account_id = "PStr ''acc_1''"
       and ip = "''127.0.0.1''"]
    down status
  show ?thesis by (simp add: str_int_503)
qed

text \<open>
  C5 as stated fails where the accounts endpoint answers 503 and the balances endpoint 404:
  what each fetcher raises is of the class \<open>Exception\<close> itself, not of an error type of its
  own, and it holds a single string; the status code and the body are not fields of it.
\<close>

theorem http_failure_raises_plain_exception:
  "fst (get_accounts_new (demo_env partner_accounts_down) 0 None 10 None ''desc'' w0) =
     Inl (Exception ''JoPACC API Error: 503 - Service Unavailable'')
   \<and> raised_class (fst (get_accounts_new (demo_env partner_accounts_down) 0 None 10 None
                           ''desc'' w0)) = Some ''Exception''
   \<and> fst (get_account_balances (demo_env partner_accounts_down) (PStr ''acc_1'') ''127.0.0.1'' w0) =
     Inl (Exception ''JoPACC Balance API Error: 404 - Not Found'')
   \<and> raised_class (fst (get_account_balances (demo_env partner_accounts_down) (PStr ''acc_1'')
                           ''127.0.0.1'' w0)) = Some ''Exception''"
proof -
  let ?E = "demo_env partner_accounts_down"
  have listing: "fst (get_accounts_new ?E 0 None 10 None ''desc'' w0) =
     Inl (Exception ''JoPACC API Error: 503 - Service Unavailable'')"
    by (simp add: get_accounts_new_fst get_accounts_new_request_def split_def Let_def
        demo_env_def partner_accounts_down_def http_error_def checked_json_def str_int_503)
  have balance: "fst (get_account_balances ?E (PStr ''acc_1'') ''127.0.0.1'' w0) =
     Inl (Exception ''JoPACC Balance API Error: 404 - Not Found'')"
    by (simp add: get_account_balances_fst get_account_balances_request_def split_def Let_def
        demo_env_def partner_accounts_down_def http_error_def checked_json_def str_int_404
        balances_url_def)
  from listing balance show ?thesis by (simp add: raised_class_def)
qed

lemma distinct_pairs:
  "distinct (concat (map (\<lambda>r. [f r, g r]) xs)) \<Longrightarrow> distinct (map f xs) \<and> distinct (map g xs)"
  by (induction xs) auto

text \<open>
  C6. Fresh per-call identifiers. Take a UUID generator that never yields a value twice.
  After any sequence of calls to the service, the interaction ids and idempotency keys of
  the requests sent are present in every request and pairwise distinct: no two requests
  share an interaction id or an idempotency key, and no value serves as both.
\<close>

theorem fresh_identifiers_per_call:
  assumes "inj (uuid_source E)"
  shows "distinct (concat (map call_ids (sent (fold (after_call E) calls w0))))
       \<and> None \<notin> set (concat (map call_ids (sent (fold (after_call E) calls w0))))
       \<and> distinct (map (\<lambda>req. map_of (headers req) ''x-interactions-id'')
                      (sent (fold (after_call E) calls w0)))
       \<and> distinct (map (\<lambda>req. map_of (headers req) ''x-idempotency-key'')
                      (sent (fold (after_call E) calls w0)))"
proof -
  let ?W = "fold (after_call E) calls w0"
  have "ids_fresh E ?W"
    by (rule after_calls_fresh [OF ids_fresh_w0])
  then obtain ks where ks:
    "concat (map call_ids (sent ?W)) = map (\<lambda>k. Some (uuid_source E k)) ks" "distinct ks"
    unfolding ids_fresh_def by blast
  from assms have "inj (\<lambda>k. Some (uuid_source E k))"
    by (auto simp: inj_on_def)
  with ks(2) have "distinct (map (\<lambda>k. Some (uuid_source E k)) ks)"
    by (simp add: distinct_map inj_on_def)
  with ks(1) have d: "distinct (concat (map call_ids (sent ?W)))" by simp
  from ks(1) have n: "None \<notin> set (concat (map call_ids (sent ?W)))" by auto
  have "concat (map call_ids (sent ?W)) =
      concat (map (\<lambda>r. [map_of (headers r) ''x-interactions-id'',
                         map_of (headers r) ''x-idempotency-key'']) (sent ?W))"
    by (simp add: call_ids_def [abs_def])
  with d distinct_pairs [of "\<lambda>r. map_of (headers r) ''x-interactions-id''"
      "\<lambda>r. map_of (headers r) ''x-idempotency-key''" "sent ?W"]
  have "distinct (map (\<lambda>req. map_of (headers req) ''x-interactions-id'') (sent ?W))
      \<and> distinct (map (\<lambda>req. map_of (headers req) ''x-idempotency-key'') (sent ?W))"
    by simp
  with d n show ?thesis by blast
qed

lemma inj_demo_uuid: "inj (uuid_source (demo_env p))"
  by (rule injI) (simp add: demo_env_def demo_uuid_def)

text \<open>
  Two balance calls for two different accounts: the identifiers sent are the first four
  draws of the generator. And the calls of one aggregation carry distinct identifiers.
\<close>

theorem fresh_identifiers_per_call_witness:
  "map call_ids
     (sent (fold (after_call (demo_env (demo_partner PNone)))
              [GetAccountBalances (PStr ''acc_1'') ''127.0.0.1'',
               GetAccountBalances (PStr ''acc_3'') ''127.0.0.1''] w0)) =
     [[Some ''uu'', Some ''u''], [Some ''uuuu'', Some ''uuu'']]
   \<and> distinct (concat (map call_ids
        (sent (fold (after_call (demo_env (demo_partner PNone)))
                 [GetAccountBalances (PStr ''acc_1'') ''127.0.0.1'',
                  GetAccountBalances (PStr ''acc_3'') ''127.0.0.1''] w0))))
   \<and> distinct (map (\<lambda>req. map_of (headers req) ''x-idempotency-key'')
        (sent (fold (after_call (demo_env (demo_partner (PStr ''acc_2''))))
                 [GetAccountsWithBalances 0 10] w0)))"
proof -
  have "map call_ids
     (sent (fold (after_call (demo_env (demo_partner PNone)))
              [GetAccountBalances (PStr ''acc_1'') ''127.0.0.1'',
               GetAccountBalances (PStr ''acc_3'') ''127.0.0.1''] w0)) =
     [[Some ''uu'', Some ''u''], [Some ''uuuu'', Some ''uuu'']]"
    by (simp add: get_account_balances_snd get_account_balances_request_def
        get_account_balances_headers_def str_uuid4_def utcnow_def split_def Let_def
        call_ids_def demo_env_def demo_uuid_def w0_def numeral_2_eq_2 numeral_3_eq_3)
  with fresh_identifiers_per_call [OF inj_demo_uuid, of "demo_partner PNone"
      "[GetAccountBalances (PStr ''acc_1'') ''127.0.0.1'',
        GetAccountBalances (PStr ''acc_3'') ''127.0.0.1'']"]
    fresh_identifiers_per_call [OF inj_demo_uuid, of "demo_partner (PStr ''acc_2'')"
      "[GetAccountsWithBalances 0 10]"]
  show ?thesis by blast
qed

section \<open>Quote arithmetic\<close>

lemma demo_fx_quote_answers:
  "fx_quote_call_answers (demo_env (demo_partner failing))
     (Inr \<lparr>status_code = 200, text_body = [], json = Some demo_fx_response\<rparr>)"
  by (simp add: fx_quote_call_answers_def demo_env_def demo_partner_def ok_json_def
      fx_quote_url_def accounts_url_def)

lemma demo_fx_data:
  "map_of [(''data'', PList (map PDict demo_rates))] ''data'' = Some (PList (map PDict demo_rates))"
  "demo_rates \<noteq> []"
  by (simp_all add: demo_rates_def)

lemma demo_selected_usd:
  "selected_rate demo_rates ''USD'' = hd demo_rates"
  "selected_rate demo_rates ''GBP'' = hd demo_rates"
  "selected_rate demo_rates ''EUR'' = hd (tl demo_rates)"
  by (simp_all add: selected_rate_def demo_rates_def dict_get_def)

lemma demo_rate_fields:
  "dict_get (hd demo_rates) ''conversionValue'' (PFloat 1) = PFloat (dbl_round (709 / 1000))"
  "dict_get (hd demo_rates) ''targetCurrency'' (PStr tc) = PStr ''USD''"
  "dict_get (hd demo_rates) ''sourceCurrency'' (PStr ''JOD'') = PStr ''JOD''"
  "dict_get (hd (tl demo_rates)) ''conversionValue'' (PFloat 1) = PFloat (dbl_round (647 / 1000))"
  "dict_get (hd (tl demo_rates)) ''targetCurrency'' (PStr tc) = PStr ''EUR''"
  "dict_get (hd (tl demo_rates)) ''sourceCurrency'' (PStr ''JOD'') = PStr ''JOD''"
  by (simp_all add: demo_rates_def dict_get_def)

lemma product_100_0709:
  "py_float (100 * dbl_round (709 / 1000)) = PFloat (4989143962196377 / 70368744177664)"
  by code_simp

lemma double_70_9: "dbl_round (709 / 10) = 2494571981098189 / 35184372088832"
  by code_simp

lemma converted_100_0709:
  "converted_amount (Some 100) (PFloat (dbl_round (709 / 1000))) =
     Inr (PFloat (4989143962196377 / 70368744177664))"
  by (simp add: converted_amount_def product_100_0709)

text \<open>
  C9, as the code has it. Amounts and rates are binary64 floats. When the first USD rate of
  the partner's list has \<open>conversionValue\<close> 0.709, \<open>get_fx_quote\<close> for USD and the amount 100
  returns the rate 0.709 and, as \<open>convertedAmount\<close>, the rounded product of the two floats:
  4989143962196377 / 2^46, which Python prints as 70.89999999999999 and which lies one unit
  in the last place (2^-46) below the float 70.9.
\<close>

theorem quote_arithmetic_binary64:
  assumes "fx_quote_call_answers E (Inr r)" and "status_code r = 200"
    and "json r = Some (PDict fx)"
    and "map_of fx ''data'' = Some (PList (map PDict rates))" and "rates \<noteq> []"
    and "find (\<lambda>d. dict_get d ''targetCurrency'' PNone = PStr ''USD'') rates = Some d"
    and "dict_get d ''conversionValue'' (PFloat 1) = PFloat (dbl_round (709 / 1000))"
  shows "\<exists>q. fst (get_fx_quote E ''USD'' (Some 100) w) = Inr q
             \<and> map_of q ''rate'' = Some (PFloat (dbl_round (709 / 1000)))
             \<and> map_of q ''convertedAmount'' = Some (PFloat (4989143962196377 / 70368744177664))
             \<and> dbl_round (709 / 10) - 4989143962196377 / 70368744177664 = 1 / 2 ^ 46"
proof -
  from assms(6) have sel: "selected_rate rates ''USD'' = d"
    by (simp add: selected_rate_def)
  with assms(7) have conv:
    "converted_amount (Some 100) (dict_get (selected_rate rates ''USD'') ''conversionValue'' (PFloat 1))
       = Inr (PFloat (4989143962196377 / 70368744177664))"
    by (simp add: converted_100_0709)
  from get_fx_quote_reports [OF assms(1-5) conv, of w] sel assms(7)
  have "\<exists>q. fst (get_fx_quote E ''USD'' (Some 100) w) = Inr q
             \<and> map_of q ''rate'' = Some (PFloat (dbl_round (709 / 1000)))
             \<and> map_of q ''convertedAmount'' = Some (PFloat (4989143962196377 / 70368744177664))"
    by (auto simp: quote_reports_def)
  moreover have "dbl_round (709 / 10) - 4989143962196377 / 70368744177664 = 1 / 2 ^ 46"
    by (simp add: double_70_9)
  ultimately show ?thesis by blast
qed

lemma demo_find_usd:
  "find (\<lambda>d. dict_get d ''targetCurrency'' PNone = PStr ''USD'') demo_rates = Some (hd demo_rates)"
  by (simp add: demo_rates_def dict_get_def)

theorem quote_arithmetic_binary64_witness:
  "\<exists>q. fst (get_fx_quote (demo_env (demo_partner PNone)) ''USD'' (Some 100) w0) = Inr q
       \<and> map_of q ''rate'' = Some (PFloat (dbl_round (709 / 1000)))
       \<and> map_of q ''convertedAmount'' = Some (PFloat (4989143962196377 / 70368744177664))"
proof -
  let ?r = "\<lparr>status_code = 200, text_body = [], json = Some demo_fx_response\<rparr>"
  have st: "status_code ?r = 200" by simp
  have js: "json ?r = Some (PDict [(''data'', PList (map PDict demo_rates))])"
    by (simp add: demo_fx_response_def)
  from quote_arithmetic_binary64 [OF demo_fx_quote_answers st js demo_fx_data demo_find_usd
      demo_rate_fields(1), of PNone w0]
  show ?thesis by blast
qed

text \<open>
  C9 as stated fails on scenario C: the \<open>convertedAmount\<close> returned for the amount 100 at
  the rate 0.709 is not the float 70.9.
\<close>

theorem converted_amount_is_not_70_9:
  "\<exists>q. fst (get_fx_quote (demo_env (demo_partner PNone)) ''USD'' (Some 100) w0) = Inr q
       \<and> map_of q ''rate'' = Some (PFloat (dbl_round (709 / 1000)))
       \<and> map_of q ''convertedAmount'' = Some (PFloat (4989143962196377 / 70368744177664))
       \<and> map_of q ''convertedAmount'' \<noteq> Some (PFloat (dbl_round (709 / 10)))"
proof -
  let ?r = "\<lparr>status_code = 200, text_body = [], json = Some demo_fx_response\<rparr>"
  have st: "status_code ?r = 200" by simp
  have js: "json ?r = Some (PDict [(''data'', PList (map PDict demo_rates))])"
    by (simp add: demo_fx_response_def)
  have conv: "converted_amount (Some 100)
      (dict_get (selected_rate demo_rates ''USD'') ''conversionValue'' (PFloat 1))
       = Inr (PFloat (4989143962196377 / 70368744177664))"
    by (simp add: demo_selected_usd demo_rate_fields converted_100_0709)
  from get_fx_quote_reports [OF demo_fx_quote_answers st js demo_fx_data conv, of PNone w0]
  obtain q where q: "fst (get_fx_quote (demo_env (demo_partner PNone)) ''USD'' (Some 100) w0) = Inr q"
    "quote_reports q (selected_rate demo_rates ''USD'') ''USD''"
    "map_of q ''convertedAmount'' = Some (PFloat (4989143962196377 / 70368744177664))"
    by blast
  from q(2) have "map_of q ''rate'' = Some (PFloat (dbl_round (709 / 1000)))"
    by (simp add: quote_reports_def demo_selected_usd demo_rate_fields)
  moreover from q(3) have "map_of q ''convertedAmount'' \<noteq> Some (PFloat (dbl_round (709 / 10)))"
    by (simp add: double_70_9)
  ultimately show ?thesis using q(1,3) by blast
qed

text \<open>
  C10. Zero or missing amount. When \<open>amount\<close> is \<open>None\<close> or 0, every quote \<open>get_fx_quote\<close>
  returns has \<open>convertedAmount\<close> \<open>None\<close>, whichever rate was selected; and every result of
  \<open>get_fx_quote_for_account\<close> wraps such a quote in \<open>quote_data\<close> and repeats the \<open>None\<close> at top
  level, as \<open>converted_amount\<close> on the verified path (no \<open>warning\<close>) and as \<open>convertedAmount\<close>
  on the unverified one.
\<close>

theorem zero_amount_converts_to_none:
  assumes "amount = None \<or> amount = Some 0"
  shows "(fst (get_fx_quote E tc amount w) = Inr q \<longrightarrow>
            map_of q ''convertedAmount'' = Some PNone)
       \<and> (fst (get_fx_quote_for_account E account_id tc amount w) = Inr res \<longrightarrow>
            (\<exists>q'. map_of res ''quote_data'' = Some (PDict q')
                  \<and> map_of q' ''convertedAmount'' = Some PNone)
            \<and> (map_of res ''warning'' = None \<and> map_of res ''converted_amount'' = Some PNone
               \<or> map_of res ''warning'' = Some (PStr quote_warning)
                 \<and> map_of res ''convertedAmount'' = Some PNone))"
proof -
  from assms have none: "converted_amount amount v = Inr c \<Longrightarrow> c = PNone" for v c
    by (auto simp: converted_amount_def)
  have built: "map_of q' ''convertedAmount'' = Some PNone \<and> map fst q' = quote_keys"
    if "built_quote E amount q'" for q'
    using built_quote_fields [OF that] none by auto
  show ?thesis
  proof (intro conjI impI)
    assume "fst (get_fx_quote E tc amount w) = Inr q"
    then have "built_quote E amount q" by (rule get_fx_quote_built)
    with built show "map_of q ''convertedAmount'' = Some PNone" by blast
  next
    assume res: "fst (get_fx_quote_for_account E account_id tc amount w) = Inr res"
    from get_fx_quote_for_account_cases [OF res] obtain q' where
      q': "built_quote E amount q'"
      and shape: "(\<exists>cur. res = verified_quote account_id cur tc amount q')
                  \<or> res = degraded_quote account_id q'"
      by blast
    from built [OF q'] have conv: "map_of q' ''convertedAmount'' = Some PNone"
      and keys: "map fst q' = quote_keys" by simp_all
    from shape have data: "map_of res ''quote_data'' = Some (PDict q')"
      using verified_quote_fields(1) degraded_quote_fields(1) [OF keys] by auto
    with conv show "\<exists>q'. map_of res ''quote_data'' = Some (PDict q')
                  \<and> map_of q' ''convertedAmount'' = Some PNone"
      by blast
    from shape show "map_of res ''warning'' = None \<and> map_of res ''converted_amount'' = Some PNone
               \<or> map_of res ''warning'' = Some (PStr quote_warning)
                 \<and> map_of res ''convertedAmount'' = Some PNone"
    proof
      assume "\<exists>cur. res = verified_quote account_id cur tc amount q'"
      then obtain cur where "res = verified_quote account_id cur tc amount q'" by blast
      with conv have "map_of res ''warning'' = None \<and> map_of res ''converted_amount'' = Some PNone"
        by (simp add: verified_quote_fields dict_get_def)
      then show ?thesis by blast
    next
      assume "res = degraded_quote account_id q'"
      with conv degraded_quote_fields(3,5) [OF keys, of account_id]
      have "map_of res ''warning'' = Some (PStr quote_warning)
                 \<and> map_of res ''convertedAmount'' = Some PNone"
        by simp
      then show ?thesis by blast
    qed
  qed
qed

text \<open>
  With the amount 0 the exact match (USD) gives no converted amount, and with no amount the
  fallback (GBP, served at the first rate) gives none either.
\<close>

theorem zero_amount_converts_to_none_witness:
  "(\<exists>q. fst (get_fx_quote (demo_env (demo_partner PNone)) ''USD'' (Some 0) w0) = Inr q
        \<and> map_of q ''amount'' = Some (PFloat 0)
        \<and> map_of q ''convertedAmount'' = Some PNone)
   \<and> (\<exists>q. fst (get_fx_quote (demo_env (demo_partner PNone)) ''GBP'' None w0) = Inr q
        \<and> map_of q ''amount'' = Some PNone
        \<and> map_of q ''convertedAmount'' = Some PNone)
   \<and> (\<exists>res. fst (get_fx_quote_for_account (demo_env (demo_partner PNone))
                   ''acc_1'' ''USD'' (Some 0) w0) = Inr res
        \<and> (map_of res ''converted_amount'' = Some PNone
            \<or> map_of res ''convertedAmount'' = Some PNone))"
proof -
  let ?E = "demo_env (demo_partner PNone)"
  let ?r = "\<lparr>status_code = 200, text_body = [], json = Some demo_fx_response\<rparr>"
  have st: "status_code ?r = 200" by simp
  have js: "json ?r = Some (PDict [(''data'', PList (map PDict demo_rates))])"
    by (simp add: demo_fx_response_def)
  have zero: "converted_amount (Some 0) v = Inr PNone" for v
    by (simp add: converted_amount_def)
  have none: "converted_amount None v = Inr PNone" for v
    by (simp add: converted_amount_def)
  from get_fx_quote_reports [where tc = "''USD''" and w = w0,
      OF demo_fx_quote_answers st js demo_fx_data zero]
  obtain q1 where q1: "fst (get_fx_quote ?E ''USD'' (Some 0) w0) = Inr q1"
    "map_of q1 ''amount'' = Some (amount_value (Some 0))"
    by blast
  from get_fx_quote_reports [where tc = "''GBP''" and w = w0,
      OF demo_fx_quote_answers st js demo_fx_data none]
  obtain q2 where q2: "fst (get_fx_quote ?E ''GBP'' None w0) = Inr q2"
    "map_of q2 ''amount'' = Some (amount_value None)"
    by blast
  have every: "\<exists>q. fst (get_fx_quote ?E ''USD'' (Some 0) w') = Inr q \<and> True
      \<and> map fst q = quote_keys" for w'
    using get_fx_quote_reports [where tc = "''USD''" and w = w',
      OF demo_fx_quote_answers st js demo_fx_data zero]
    by blast
  from get_fx_quote_for_account_total [of ?E "''USD''" "Some 0" "\<lambda>q. True" "''acc_1''" w0, OF every]
  obtain res where res: "fst (get_fx_quote_for_account ?E ''acc_1'' ''USD'' (Some 0) w0) = Inr res"
    by blast
  from zero_amount_converts_to_none [of "Some 0" ?E "''USD''" w0 q1 "''acc_1''" res] q1(1) res
  have a: "map_of q1 ''convertedAmount'' = Some PNone"
    and c: "map_of res ''converted_amount'' = Some PNone
            \<or> map_of res ''convertedAmount'' = Some PNone"
    by auto
  from zero_amount_converts_to_none [of None ?E "''GBP''" w0 q2] q2(1)
  have b: "map_of q2 ''convertedAmount'' = Some PNone"
    by simp
  from q1 q2 a b have "(\<exists>q. fst (get_fx_quote ?E ''USD'' (Some 0) w0) = Inr q
        \<and> map_of q ''amount'' = Some (PFloat 0)
        \<and> map_of q ''convertedAmount'' = Some PNone)"
    "(\<exists>q. fst (get_fx_quote ?E ''GBP'' None w0) = Inr q
        \<and> map_of q ''amount'' = Some PNone
        \<and> map_of q ''convertedAmount'' = Some PNone)"
    by (simp_all add: amount_value_def)
  with res c show ?thesis by blast
qed

section \<open>Degraded FX results\<close>

text \<open>
  C3, as the code has it. Neither result has a \<open>degraded\<close> field: the unverified path is
  marked by a \<open>warning\<close> field. When account verification and the FX call succeed, the result
  of \<open>get_fx_rates_for_account\<close> and of \<open>get_fx_quote_for_account\<close> has no \<open>warning\<close> and
  carries the account's currency. When verification fails (account not found, or the
  accounts call raised) and the FX call made next succeeds, the operation returns a result
  with \<open>account_currency\<close> JOD and a \<open>warning\<close>; for the rates, it has the fields of the
  verified result and \<open>warning\<close>.
\<close>

theorem degraded_fx_marked_by_warning:
  "(fst (verify_account E account_id w) = Inr cur \<and>
    fst (get_fx_rates E (snd (verify_account E account_id w))) = Inr (PDict fx) \<longrightarrow>
      (\<exists>res. fst (get_fx_rates_for_account E account_id w) = Inr res
            \<and> map fst res = [''account_id'', ''account_currency'', ''fx_data'',
                             ''rates_for_account'', ''last_updated'']
            \<and> map_of res ''account_currency'' = Some cur
            \<and> map_of res ''degraded'' = None))
   \<and>
   (fst (verify_account E account_id w) = Inl e \<and>
    fst (get_fx_rates E (snd (verify_account E account_id w))) = Inr (PDict fx) \<longrightarrow>
      (\<exists>res. fst (get_fx_rates_for_account E account_id w) = Inr res
            \<and> map fst res = [''account_id'', ''account_currency'', ''fx_data'',
                             ''rates_for_account'', ''last_updated'', ''warning'']
            \<and> map_of res ''account_currency'' = Some (PStr ''JOD'')
            \<and> map_of res ''warning'' = Some (PStr rates_warning)
            \<and> map_of res ''degraded'' = None))
   \<and>
   (fst (verify_account E account_id w) = Inr cur \<and>
    fst (get_fx_quote E tc amount (snd (verify_account E account_id w))) = Inr q \<longrightarrow>
      (\<exists>res. fst (get_fx_quote_for_account E account_id tc amount w) = Inr res
            \<and> map_of res ''warning'' = None
            \<and> map_of res ''degraded'' = None
            \<and> map_of res ''account_currency'' = Some cur
            \<and> map_of res ''quote_data'' = Some (PDict q)))
   \<and>
   (fst (verify_account E account_id w) = Inl e \<and>
    fst (get_fx_quote E tc amount (snd (verify_account E account_id w))) = Inr q \<longrightarrow>
      (\<exists>res. fst (get_fx_quote_for_account E account_id tc amount w) = Inr res
            \<and> map_of res ''warning'' = Some (PStr quote_warning)
            \<and> map_of res ''degraded'' = None
            \<and> map_of res ''account_currency'' = Some (PStr ''JOD'')
            \<and> map_of res ''quote_data'' = Some (PDict q)))"
proof (intro conjI impI)
  assume a: "fst (verify_account E account_id w) = Inr cur \<and>
    fst (get_fx_rates E (snd (verify_account E account_id w))) = Inr (PDict fx)"
  show "\<exists>res. fst (get_fx_rates_for_account E account_id w) = Inr res
            \<and> map fst res = [''account_id'', ''account_currency'', ''fx_data'',
                             ''rates_for_account'', ''last_updated'']
            \<and> map_of res ''account_currency'' = Some cur
            \<and> map_of res ''degraded'' = None"
    by (rule rates_for_account_verified [OF conjunct1 [OF a] conjunct2 [OF a]])
next
  assume a: "fst (verify_account E account_id w) = Inl e \<and>
    fst (get_fx_rates E (snd (verify_account E account_id w))) = Inr (PDict fx)"
  show "\<exists>res. fst (get_fx_rates_for_account E account_id w) = Inr res
            \<and> map fst res = [''account_id'', ''account_currency'', ''fx_data'',
                             ''rates_for_account'', ''last_updated'', ''warning'']
            \<and> map_of res ''account_currency'' = Some (PStr ''JOD'')
            \<and> map_of res ''warning'' = Some (PStr rates_warning)
            \<and> map_of res ''degraded'' = None"
    by (rule rates_for_account_unverified [OF conjunct1 [OF a] conjunct2 [OF a]])
next
  assume a: "fst (verify_account E account_id w) = Inr cur \<and>
    fst (get_fx_quote E tc amount (snd (verify_account E account_id w))) = Inr q"
  from quote_for_account_verified [OF conjunct1 [OF a] conjunct2 [OF a]]
  show "\<exists>res. fst (get_fx_quote_for_account E account_id tc amount w) = Inr res
            \<and> map_of res ''warning'' = None
            \<and> map_of res ''degraded'' = None
            \<and> map_of res ''account_currency'' = Some cur
            \<and> map_of res ''quote_data'' = Some (PDict q)"
    by (simp add: verified_quote_fields)
next
  assume a: "fst (verify_account E account_id w) = Inl e \<and>
    fst (get_fx_quote E tc amount (snd (verify_account E account_id w))) = Inr q"
  from get_fx_quote_built [OF conjunct2 [OF a]] have "map fst q = quote_keys"
    by (rule built_quote_fields)
  from quote_for_account_unverified [OF conjunct1 [OF a] conjunct2 [OF a]]
    degraded_quote_fields [OF this, of account_id]
  show "\<exists>res. fst (get_fx_quote_for_account E account_id tc amount w) = Inr res
            \<and> map_of res ''warning'' = Some (PStr quote_warning)
            \<and> map_of res ''degraded'' = None
            \<and> map_of res ''account_currency'' = Some (PStr ''JOD'')
            \<and> map_of res ''quote_data'' = Some (PDict q)"
    by simp
qed

lemma demo_verify:
  "fst (verify_account (demo_env (demo_partner failing)) ''acc_1'' w) = Inr (PStr ''JOD'')"
  "fst (verify_account (demo_env (demo_partner failing)) ''nope'' w) =
     Inl (ValueError ''Account nope not found'')"
proof -
  let ?resp = "[(''accounts'', PList (map PDict demo_accounts)), (''hasMore'', PBool False)]"
  have listed: "dict_get ?resp ''accounts'' (PList []) = PList (map PDict demo_accounts)"
    by (simp add: dict_get_def)
  show "fst (verify_account (demo_env (demo_partner failing)) ''acc_1'' w) = Inr (PStr ''JOD'')"
    by (simp add: verify_account_fst [OF demo_listing listed] demo_accounts_def
        demo_account_def dict_get_def)
  show "fst (verify_account (demo_env (demo_partner failing)) ''nope'' w) =
     Inl (ValueError ''Account nope not found'')"
    by (simp add: verify_account_fst [OF demo_listing listed] demo_accounts_def
        demo_account_def dict_get_def)
qed

lemma demo_fx_rates:
  "fst (get_fx_rates (demo_env (demo_partner failing)) w) =
     Inr (PDict [(''data'', PList (map PDict demo_rates))])"
  by (simp add: get_fx_rates_fst get_fx_rates_request_def split_def Let_def demo_env_def
      demo_partner_def checked_json_def ok_json_def demo_fx_response_def fx_rates_url_def
      accounts_url_def)

lemma partner_down_calls:
  "fst (verify_account (demo_env partner_down) account_id w) =
     Inl (Exception ''JoPACC API Error: 503 - Service Unavailable'')"
  "fst (get_fx_rates (demo_env partner_down) w) =
     Inl (Exception ''JoPACC FX Rates API Error: 503 - Service Unavailable'')"
proof -
  have "fst (get_accounts_new (demo_env partner_down) 0 None 50 None ''desc'' w) =
     Inl (Exception ''JoPACC API Error: 503 - Service Unavailable'')"
    by (simp add: get_accounts_new_fst demo_env_def partner_down_def http_error_def
        checked_json_def str_int_503)
  then show "fst (verify_account (demo_env partner_down) account_id w) =
     Inl (Exception ''JoPACC API Error: 503 - Service Unavailable'')"
    by (rule verify_account_fails)
  show "fst (get_fx_rates (demo_env partner_down) w) =
     Inl (Exception ''JoPACC FX Rates API Error: 503 - Service Unavailable'')"
    by (simp add: get_fx_rates_fst demo_env_def partner_down_def http_error_def
        checked_json_def str_int_503)
qed

text \<open>
  For a listed account the rates come without a warning; for an unknown account they come
  with the warning and the default currency.
\<close>

theorem degraded_fx_marked_by_warning_witness:
  "(\<exists>res. fst (get_fx_rates_for_account (demo_env (demo_partner PNone)) ''acc_1'' w0) = Inr res
         \<and> map fst res = [''account_id'', ''account_currency'', ''fx_data'',
                          ''rates_for_account'', ''last_updated'']
         \<and> map_of res ''account_currency'' = Some (PStr ''JOD'')
         \<and> map_of res ''degraded'' = None)
   \<and> (\<exists>res. fst (get_fx_rates_for_account (demo_env (demo_partner PNone)) ''nope'' w0) = Inr res
         \<and> map fst res = [''account_id'', ''account_currency'', ''fx_data'',
                          ''rates_for_account'', ''last_updated'', ''warning'']
         \<and> map_of res ''account_currency'' = Some (PStr ''JOD'')
         \<and> map_of res ''warning'' = Some (PStr rates_warning)
         \<and> map_of res ''degraded'' = None)"
proof (rule conjI)
  let ?E = "demo_env (demo_partner PNone)"
  let ?fx = "[(''data'', PList (map PDict demo_rates))]"
  have v1: "fst (verify_account ?E ''acc_1'' w0) = Inr (PStr ''JOD'') \<and>
      fst (get_fx_rates ?E (snd (verify_account ?E ''acc_1'' w0))) = Inr (PDict ?fx)"
    by (rule conjI) (rule demo_verify(1), rule demo_fx_rates)
  have v2: "fst (verify_account ?E ''nope'' w0) = Inl (ValueError ''Account nope not found'') \<and>
      fst (get_fx_rates ?E (snd (verify_account ?E ''nope'' w0))) = Inr (PDict ?fx)"
    by (rule conjI) (rule demo_verify(2), rule demo_fx_rates)
  show "\<exists>res. fst (get_fx_rates_for_account ?E ''acc_1'' w0) = Inr res
         \<and> map fst res = [''account_id'', ''account_currency'', ''fx_data'',
                          ''rates_for_account'', ''last_updated'']
         \<and> map_of res ''account_currency'' = Some (PStr ''JOD'')
         \<and> map_of res ''degraded'' = None"
    by (rule degraded_fx_marked_by_warning [where E = ?E and account_id = "''acc_1''"
          and w = w0 and cur = "PStr ''JOD''" and fx = ?fx, THEN conjunct1, THEN mp, OF v1])
  show "\<exists>res. fst (get_fx_rates_for_account ?E ''nope'' w0) = Inr res
         \<and> map fst res = [''account_id'', ''account_currency'', ''fx_data'',
                          ''rates_for_account'', ''last_updated'', ''warning'']
         \<and> map_of res ''account_currency'' = Some (PStr ''JOD'')
         \<and> map_of res ''warning'' = Some (PStr rates_warning)
         \<and> map_of res ''degraded'' = None"
    by (rule degraded_fx_marked_by_warning [where E = ?E and account_id = "''nope''"
          and w = w0 and e = "ValueError ''Account nope not found''" and fx = ?fx,
          THEN conjunct2, THEN conjunct1, THEN mp, OF v2])
qed

text \<open>
  C3 as stated fails in two ways. No result has a \<open>degraded\<close> entry, whether the account
  was verified or not; and when the accounts call and the FX call both fail, the operation
  raises.
\<close>

theorem no_degraded_flag_and_may_raise:
  "(\<exists>res. fst (get_fx_rates_for_account (demo_env (demo_partner PNone)) ''acc_1'' w0) = Inr res
         \<and> map fst res = [''account_id'', ''account_currency'', ''fx_data'',
                          ''rates_for_account'', ''last_updated'']
         \<and> map_of res ''account_currency'' = Some (PStr ''JOD'')
         \<and> map_of res ''degraded'' = None)
   \<and> (\<exists>res. fst (get_fx_rates_for_account (demo_env (demo_partner PNone)) ''nope'' w0) = Inr res
         \<and> map fst res = [''account_id'', ''account_currency'', ''fx_data'',
                          ''rates_for_account'', ''last_updated'', ''warning'']
         \<and> map_of res ''account_currency'' = Some (PStr ''JOD'')
         \<and> map_of res ''warning'' = Some (PStr rates_warning)
         \<and> map_of res ''degraded'' = None)
   \<and> fst (get_fx_rates_for_account (demo_env partner_down) ''acc_1'' w0) =
       Inl (Exception ''JoPACC FX Rates API Error: 503 - Service Unavailable'')"
proof (intro conjI)
  let ?E = "demo_env (demo_partner PNone)"
  let ?fx = "[(''data'', PList (map PDict demo_rates))]"
  have f1: "fst (get_fx_rates ?E (snd (verify_account ?E ''acc_1'' w0))) = Inr (PDict ?fx)"
    by (rule demo_fx_rates)
  have f2: "fst (get_fx_rates ?E (snd (verify_account ?E ''nope'' w0))) = Inr (PDict ?fx)"
    by (rule demo_fx_rates)
  have f3: "fst (get_fx_rates (demo_env partner_down)
                 (snd (verify_account (demo_env partner_down) ''acc_1'' w0))) =
     Inl (Exception ''JoPACC FX Rates API Error: 503 - Service Unavailable'')"
    by (rule partner_down_calls(2))
  show "\<exists>res. fst (get_fx_rates_for_account ?E ''acc_1'' w0) = Inr res
         \<and> map fst res = [''account_id'', ''account_currency'', ''fx_data'',
                          ''rates_for_account'', ''last_updated'']
         \<and> map_of res ''account_currency'' = Some (PStr ''JOD'')
         \<and> map_of res ''degraded'' = None"
    by (rule rates_for_account_verified [OF demo_verify(1) f1])
  show "\<exists>res. fst (get_fx_rates_for_account ?E ''nope'' w0) = Inr res
         \<and> map fst res = [''account_id'', ''account_currency'', ''fx_data'',
                          ''rates_for_account'', ''last_updated'', ''warning'']
         \<and> map_of res ''account_currency'' = Some (PStr ''JOD'')
         \<and> map_of res ''warning'' = Some (PStr rates_warning)
         \<and> map_of res ''degraded'' = None"
    by (rule rates_for_account_unverified [OF demo_verify(2) f2])
  show "fst (get_fx_rates_for_account (demo_env partner_down) ''acc_1'' w0) =
       Inl (Exception ''JoPACC FX Rates API Error: 503 - Service Unavailable'')"
    by (rule rates_for_account_raises [OF partner_down_calls(1) f3])
qed

section \<open>The label of a fallback quote\<close>

lemma accounts_down_calls:
  "fst (verify_account (demo_env partner_accounts_down) account_id w) =
     Inl (Exception ''JoPACC API Error: 503 - Service Unavailable'')"
  "fx_quote_call_answers (demo_env partner_accounts_down)
     (Inr \<lparr>status_code = 200, text_body = [], json = Some demo_fx_response\<rparr>)"
proof -
  have "fst (get_accounts_new (demo_env partner_accounts_down) 0 None 50 None ''desc'' w) =
     Inl (Exception ''JoPACC API Error: 503 - Service Unavailable'')"
    by (simp add: get_accounts_new_fst get_accounts_new_request_def split_def Let_def
        demo_env_def partner_accounts_down_def http_error_def checked_json_def str_int_503)
  then show "fst (verify_account (demo_env partner_accounts_down) account_id w) =
     Inl (Exception ''JoPACC API Error: 503 - Service Unavailable'')"
    by (rule verify_account_fails)
  show "fx_quote_call_answers (demo_env partner_accounts_down)
     (Inr \<lparr>status_code = 200, text_body = [], json = Some demo_fx_response\<rparr>)"
    by (simp add: fx_quote_call_answers_def demo_env_def partner_accounts_down_def ok_json_def
        fx_quote_url_def accounts_url_def)
qed

lemma gbp_quote:
  assumes "fx_quote_call_answers E
      (Inr \<lparr>status_code = 200, text_body = [], json = Some demo_fx_response\<rparr>)"
  shows "\<exists>q. fst (get_fx_quote E ''GBP'' (Some 100) w) = Inr q
            \<and> map_of q ''targetCurrency'' = Some (PStr ''USD'')
            \<and> map_of q ''rate'' = Some (PFloat (dbl_round (709 / 1000)))
            \<and> map_of q ''convertedAmount'' = Some (PFloat (4989143962196377 / 70368744177664))
            \<and> map fst q = quote_keys"
proof -
  let ?r = "\<lparr>status_code = 200, text_body = [], json = Some demo_fx_response\<rparr>"
  have st: "status_code ?r = 200" by simp
  have js: "json ?r = Some (PDict [(''data'', PList (map PDict demo_rates))])"
    by (simp add: demo_fx_response_def)
  have conv: "converted_amount (Some 100)
      (dict_get (selected_rate demo_rates ''GBP'') ''conversionValue'' (PFloat 1))
       = Inr (PFloat (4989143962196377 / 70368744177664))"
    by (simp add: demo_selected_usd demo_rate_fields converted_100_0709)
  from get_fx_quote_reports [where tc = "''GBP''" and w = w, OF assms st js demo_fx_data conv]
  obtain q where "fst (get_fx_quote E ''GBP'' (Some 100) w) = Inr q"
    "quote_reports q (hd demo_rates) ''GBP''"
    "map_of q ''convertedAmount'' = Some (PFloat (4989143962196377 / 70368744177664))"
    "map fst q = quote_keys"
    by (auto simp: demo_selected_usd)
  then show ?thesis
    by (intro exI [of _ q]) (simp add: quote_reports_def demo_rate_fields)
qed

text \<open>
  C7, at an input where the code departs from it. Against the table
  \<open>{USD: 0.709, EUR: 0.647}\<close>, the quote of the amount 100 in GBP for the listed account
  \<open>acc_1\<close> falls back to the first rate, and the quote \<open>get_fx_quote\<close> returns names it
  (\<open>targetCurrency\<close> USD). The result of \<open>get_fx_quote_for_account\<close>, on its verified path,
  has the rate 0.709 and the converted amount 70.89999999999999 of USD at top level under
  \<open>target_currency\<close> GBP, the requested currency, and no warning; only the nested
  \<open>quote_data\<close> says USD. The \<open>except\<close> path of the same method, taken when the accounts
  endpoint is down, reports USD at top level for the same request.
\<close>

theorem fallback_quote_labelled_as_requested:
  "(\<exists>res q. fst (get_fx_quote_for_account (demo_env (demo_partner PNone))
                   ''acc_1'' ''GBP'' (Some 100) w0) = Inr res
        \<and> map_of res ''warning'' = None
        \<and> map_of res ''target_currency'' = Some (PStr ''GBP'')
        \<and> map_of res ''rate'' = Some (PFloat (dbl_round (709 / 1000)))
        \<and> map_of res ''converted_amount'' = Some (PFloat (4989143962196377 / 70368744177664))
        \<and> map_of res ''quote_data'' = Some (PDict q)
        \<and> map_of q ''targetCurrency'' = Some (PStr ''USD'')
        \<and> map_of q ''rate'' = Some (PFloat (dbl_round (709 / 1000))))
   \<and> (\<exists>res. fst (get_fx_quote_for_account (demo_env partner_accounts_down)
                   ''acc_1'' ''GBP'' (Some 100) w0) = Inr res
        \<and> map_of res ''warning'' = Some (PStr quote_warning)
        \<and> map_of res ''targetCurrency'' = Some (PStr ''USD'')
        \<and> map_of res ''rate'' = Some (PFloat (dbl_round (709 / 1000)))
        \<and> map_of res ''convertedAmount'' = Some (PFloat (4989143962196377 / 70368744177664)))"
proof (rule conjI)
  let ?E = "demo_env (demo_partner PNone)"
  let ?w1 = "snd (verify_account ?E ''acc_1'' w0)"
  from gbp_quote [OF demo_fx_quote_answers, of PNone ?w1] obtain q where
    q: "fst (get_fx_quote ?E ''GBP'' (Some 100) ?w1) = Inr q"
      "map_of q ''targetCurrency'' = Some (PStr ''USD'')"
      "map_of q ''rate'' = Some (PFloat (dbl_round (709 / 1000)))"
      "map_of q ''convertedAmount'' = Some (PFloat (4989143962196377 / 70368744177664))"
    by blast
  let ?res = "verified_quote ''acc_1'' (PStr ''JOD'') ''GBP'' (Some 100) q"
  from quote_for_account_verified [OF demo_verify(1) q(1)]
  have "fst (get_fx_quote_for_account ?E ''acc_1'' ''GBP'' (Some 100) w0) = Inr ?res" .
  moreover have "map_of ?res ''warning'' = None"
    "map_of ?res ''target_currency'' = Some (PStr ''GBP'')"
    "map_of ?res ''rate'' = Some (PFloat (dbl_round (709 / 1000)))"
    "map_of ?res ''converted_amount'' = Some (PFloat (4989143962196377 / 70368744177664))"
    "map_of ?res ''quote_data'' = Some (PDict q)"
    using q(3,4) by (simp_all add: verified_quote_fields dict_get_def)
  ultimately show "\<exists>res q. fst (get_fx_quote_for_account ?E ''acc_1'' ''GBP'' (Some 100) w0) = Inr res
        \<and> map_of res ''warning'' = None
        \<and> map_of res ''target_currency'' = Some (PStr ''GBP'')
        \<and> map_of res ''rate'' = Some (PFloat (dbl_round (709 / 1000)))
        \<and> map_of res ''converted_amount'' = Some (PFloat (4989143962196377 / 70368744177664))
        \<and> map_of res ''quote_data'' = Some (PDict q)
        \<and> map_of q ''targetCurrency'' = Some (PStr ''USD'')
        \<and> map_of q ''rate'' = Some (PFloat (dbl_round (709 / 1000)))"
    using q(2,3) by (intro exI [of _ ?res] exI [of _ q] conjI)
next
  let ?E = "demo_env partner_accounts_down"
  let ?w1 = "snd (verify_account ?E ''acc_1'' w0)"
  from gbp_quote [OF accounts_down_calls(2), of ?w1] obtain q where
    q: "fst (get_fx_quote ?E ''GBP'' (Some 100) ?w1) = Inr q"
      "map_of q ''targetCurrency'' = Some (PStr ''USD'')"
      "map_of q ''rate'' = Some (PFloat (dbl_round (709 / 1000)))"
      "map_of q ''convertedAmount'' = Some (PFloat (4989143962196377 / 70368744177664))"
      "map fst q = quote_keys"
    by blast
  let ?res = "degraded_quote ''acc_1'' q"
  from quote_for_account_unverified [OF accounts_down_calls(1) q(1)]
  have "fst (get_fx_quote_for_account ?E ''acc_1'' ''GBP'' (Some 100) w0) = Inr ?res" .
  moreover have "map_of ?res ''warning'' = Some (PStr quote_warning)"
    "map_of ?res ''targetCurrency'' = Some (PStr ''USD'')"
    "map_of ?res ''rate'' = Some (PFloat (dbl_round (709 / 1000)))"
    "map_of ?res ''convertedAmount'' = Some (PFloat (4989143962196377 / 70368744177664))"
    using q(2,3,4) by (simp_all add: degraded_quote_fields [OF q(5)])
  ultimately show "\<exists>res. fst (get_fx_quote_for_account ?E ''acc_1'' ''GBP'' (Some 100) w0) = Inr res
        \<and> map_of res ''warning'' = Some (PStr quote_warning)
        \<and> map_of res ''targetCurrency'' = Some (PStr ''USD'')
        \<and> map_of res ''rate'' = Some (PFloat (dbl_round (709 / 1000)))
        \<and> map_of res ''convertedAmount'' = Some (PFloat (4989143962196377 / 70368744177664))"
    by (intro exI [of _ ?res] conjI)
qed

end
